theory Spec2Isabelle
  imports Complex_Main "HOL-Library.Word"
begin

unbundle bit_operations_syntax

section \<open>MikoJSCore: values, heap, collector, object model, bytecode, compiler and VM\<close>

text \<open>
  A shallow embedding of the C sources of MikoJSCore (runtime.c, string.c, object.c,
  array.c, gc.c, vm.c, compiler.c and the headers they share).

  Conventions of the embedding.
  \<^item> A pointer is an \<open>option\<close>: \<open>None\<close> is \<open>NULL\<close>. A pointer into the collector's heap
    is the ordinal of the allocation it points at (\<open>addr\<close>): the code compares such
    pointers for equality only, and the bump allocator never hands an address out twice.
  \<^item> A singly linked chain (the generation lists, the weak reference list, the property
    chain of an object, the table of interned strings) is the list of its nodes, head first.
  \<^item> \<open>size_t\<close> byte counters are 64-bit words and wrap as in C; list lengths and indexes
    are natural numbers.
  \<^item> \<open>malloc\<close>, \<open>realloc\<close> and \<open>strdup\<close> of the C library are taken to succeed; the
    collector's own refusal to grow the heap beyond \<open>max_heap_size\<close> is modelled.
  \<^item> A \<open>double\<close> is idealised as NaN, the two infinities, or an exact rational:
    rounding, overflow to infinity, underflow, and the sign of zero and of NaN are not
    modelled (so \<open>strtod\<close> of \<open>1e400\<close> is the rational, and \<open>%.15g\<close> never prints \<open>-0\<close> or
    \<open>-nan\<close>).
\<close>

subsection \<open>Doubles\<close>

datatype double = DNaN | DPosInf | DNegInf | DNum rat

definition d_isnan :: "double \<Rightarrow> bool" where
  "d_isnan x = (x = DNaN)"

fun d_neg :: "double \<Rightarrow> double" where
  "d_neg DNaN = DNaN"
| "d_neg DPosInf = DNegInf"
| "d_neg DNegInf = DPosInf"
| "d_neg (DNum q) = DNum (- q)"

fun d_add :: "double \<Rightarrow> double \<Rightarrow> double" where
  "d_add DNaN _ = DNaN"
| "d_add _ DNaN = DNaN"
| "d_add DPosInf DNegInf = DNaN"
| "d_add DNegInf DPosInf = DNaN"
| "d_add DPosInf _ = DPosInf"
| "d_add DNegInf _ = DNegInf"
| "d_add _ DPosInf = DPosInf"
| "d_add _ DNegInf = DNegInf"
| "d_add (DNum a) (DNum b) = DNum (a + b)"

definition d_sub :: "double \<Rightarrow> double \<Rightarrow> double" where
  "d_sub a b = d_add a (d_neg b)"

text \<open>The sign of a double: 1, 0 or -1; NaN has none.\<close>

fun d_sign :: "double \<Rightarrow> int option" where
  "d_sign DNaN = None"
| "d_sign DPosInf = Some 1"
| "d_sign DNegInf = Some (- 1)"
| "d_sign (DNum q) = Some (if q > 0 then 1 else if q < 0 then - 1 else 0)"

definition d_inf_of_sign :: "int \<Rightarrow> double" where
  "d_inf_of_sign s = (if s > 0 then DPosInf else if s < 0 then DNegInf else DNaN)"

fun d_mul :: "double \<Rightarrow> double \<Rightarrow> double" where
  "d_mul (DNum a) (DNum b) = DNum (a * b)"
| "d_mul a b =
     (case (d_sign a, d_sign b) of
        (Some s, Some t) \<Rightarrow> d_inf_of_sign (s * t)
      | _ \<Rightarrow> DNaN)"

fun d_div :: "double \<Rightarrow> double \<Rightarrow> double" where
  "d_div DNaN _ = DNaN"
| "d_div _ DNaN = DNaN"
| "d_div (DNum a) (DNum b) =
     (if b = 0 then d_inf_of_sign (if a > 0 then 1 else if a < 0 then - 1 else 0)
      else DNum (a / b))"
| "d_div (DNum a) _ = DNum 0"
| "d_div a (DNum b) =
     (case d_sign a of
        Some s \<Rightarrow> d_inf_of_sign (s * (if b < 0 then - 1 else 1))
      | None \<Rightarrow> DNaN)"
| "d_div _ _ = DNaN"

text \<open>\<open>fmod\<close> of the C library: the remainder of the division truncated towards zero.\<close>

definition rat_trunc :: "rat \<Rightarrow> int" where
  "rat_trunc q = (if q < 0 then - \<lfloor>- q\<rfloor> else \<lfloor>q\<rfloor>)"

fun d_fmod :: "double \<Rightarrow> double \<Rightarrow> double" where
  "d_fmod (DNum a) (DNum b) =
     (if b = 0 then DNaN else DNum (a - of_int (rat_trunc (a / b)) * b))"
| "d_fmod (DNum a) DPosInf = DNum a"
| "d_fmod (DNum a) DNegInf = DNum a"
| "d_fmod _ _ = DNaN"

fun d_lt :: "double \<Rightarrow> double \<Rightarrow> bool" where
  "d_lt DNaN _ = False"
| "d_lt _ DNaN = False"
| "d_lt (DNum a) (DNum b) = (a < b)"
| "d_lt DNegInf b = (b \<noteq> DNegInf)"
| "d_lt a DPosInf = (a \<noteq> DPosInf)"
| "d_lt _ _ = False"

definition d_eq :: "double \<Rightarrow> double \<Rightarrow> bool" where
  "d_eq a b = (a \<noteq> DNaN \<and> a = b)"

definition d_le :: "double \<Rightarrow> double \<Rightarrow> bool" where
  "d_le a b = (d_lt a b \<or> d_eq a b)"

definition d_gt :: "double \<Rightarrow> double \<Rightarrow> bool" where
  "d_gt a b = d_lt b a"

definition d_ge :: "double \<Rightarrow> double \<Rightarrow> bool" where
  "d_ge a b = d_le b a"

text \<open>
  The cast \<open>(int32_t)d\<close> truncates towards zero. C leaves it undefined for NaN, the
  infinities and values out of range; the model takes the value that the x86-64
  conversion instruction delivers there: \<open>INT32_MIN\<close>.
\<close>

definition d_to_int32 :: "double \<Rightarrow> 32 word" where
  "d_to_int32 d =
     (case d of
        DNum q \<Rightarrow>
          (let t = rat_trunc q
           in if - (2 ^ 31) \<le> t \<and> t < 2 ^ 31 then word_of_int t else word_of_int (- (2 ^ 31)))
      | _ \<Rightarrow> word_of_int (- (2 ^ 31)))"

definition d_of_int32 :: "32 word \<Rightarrow> double" where
  "d_of_int32 w = DNum (of_int (sint w))"

text \<open>
  The conversion \<open>(size_t)d\<close>. ISO C defines it only when the integral part of \<open>d\<close> fits
  a \<open>size_t\<close>. Outside that range the value is the one that the conversion sequence of GCC
  for x86-64 produces: below \<open>2^63\<close> the operand goes through the signed 64-bit conversion
  \<open>cvttsd2si\<close>, from \<open>2^63\<close> on \<open>d - 2^63\<close> goes through it and the top bit is flipped
  afterwards; \<open>cvttsd2si\<close> answers \<open>2^63\<close> to NaN and to everything outside the signed range.
\<close>

definition d_to_size_t :: "double \<Rightarrow> nat" where
  "d_to_size_t d =
     (case d of
        DNaN \<Rightarrow> 2 ^ 63
      | DPosInf \<Rightarrow> 0
      | DNegInf \<Rightarrow> 2 ^ 63
      | DNum q \<Rightarrow>
          (let t = rat_trunc q
           in if q < 2 ^ 63 then (if - (2 ^ 63) \<le> t then nat (t mod 2 ^ 64) else 2 ^ 63)
              else (if t < 2 ^ 64 then nat t else 0)))"


subsection \<open>Values and heap payloads (mikojs\_internal.h, vm.h, gc.h)\<close>

type_synonym addr = nat
type_synonym size_t = "64 word"

text \<open>
  \<open>struct mjs_value\<close> is a tag and a union; each constructor carries the union member that
  the code reads under that tag.
\<close>

datatype mjs_value =
    VUndefined
  | VNull
  | VBoolean bool
  | VNumber double
  | VString "addr option"
  | VObject "addr option"
  | VFunction "addr option"
  | VArray "addr option"
  | VBigint
  | VSymbol

datatype mjs_value_type =
    MJS_TYPE_UNDEFINED | MJS_TYPE_NULL | MJS_TYPE_BOOLEAN | MJS_TYPE_NUMBER | MJS_TYPE_STRING
  | MJS_TYPE_OBJECT | MJS_TYPE_FUNCTION | MJS_TYPE_ARRAY | MJS_TYPE_BIGINT | MJS_TYPE_SYMBOL

datatype mjs_result =
    MJS_OK | MJS_ERROR_SYNTAX | MJS_ERROR_RUNTIME | MJS_ERROR_MEMORY | MJS_ERROR_TYPE
  | MJS_ERROR_REFERENCE | MJS_ERROR_RANGE

text \<open>\<open>#define MJS_ERROR -1\<close>: as an \<open>mjs_result_t\<close> it is the enumerator with value -1.\<close>

definition MJS_ERROR :: mjs_result where
  "MJS_ERROR = MJS_ERROR_SYNTAX"

text \<open>
  \<open>struct mjs_string\<close>: \<open>data\<close> holds the \<open>length\<close> bytes of the string; the terminating NUL
  byte, \<open>capacity = length + 1\<close> and the \<open>next\<close> link of the intern chain are implicit.
\<close>

record mjs_string =
  data :: string
  is_interned :: bool

text \<open>
  A \<open>const char*\<close> is read up to its first NUL byte: \<open>c_str\<close> is what \<open>strcmp\<close>,
  \<open>strlen\<close> and \<open>strdup\<close> see of a buffer.
\<close>

definition c_str :: "string \<Rightarrow> string" where
  "c_str s = takeWhile (\<lambda>c. c \<noteq> CHR 0x00) s"

definition MJS_STREQ :: "string \<Rightarrow> string \<Rightarrow> bool" where
  "MJS_STREQ a b = (c_str a = c_str b)"

record mjs_instruction =
  opcode :: nat
  operand :: "32 word"

record mjs_bytecode =
  instructions :: "mjs_instruction list"
  instruction_capacity :: nat
  constants :: "mjs_value list"
  constant_capacity :: nat
  strings :: "mjs_string list"
  string_capacity :: nat

record mjs_property =
  key :: "addr option"
  pvalue :: mjs_value
  writable :: bool
  enumerable :: bool
  configurable :: bool

record mjs_object =
  properties :: "mjs_property list"
  prototype :: "addr option"
  extensible :: bool
  property_count :: nat

record mjs_array =
  elements :: "mjs_value list"
  alength :: nat
  acapacity :: nat

datatype mjs_function_type = MJS_FUNCTION_NATIVE | MJS_FUNCTION_BYTECODE

record mjs_function =
  ftype :: mjs_function_type
  native :: nat
  bytecode :: "mjs_bytecode option"
  param_count :: nat
  param_names :: "string list"
  fname :: "addr option"
  scope :: "addr option"

text \<open>The header that precedes every allocation of the collector.\<close>

record mjs_gc_object =
  gc_type :: nat
  mark :: nat
  generation :: int
  obj_size :: size_t

datatype gc_payload =
    Uninit
  | PString mjs_string
  | PObject mjs_object
  | PArray mjs_array
  | PFunction mjs_function

record gc_cell =
  header :: mjs_gc_object
  payload :: gc_payload

definition GC_MARK_WHITE :: nat where "GC_MARK_WHITE = 0"
definition GC_MARK_GRAY :: nat where "GC_MARK_GRAY = 1"
definition GC_MARK_BLACK :: nat where "GC_MARK_BLACK = 2"

definition GC_TYPE_STRING :: nat where "GC_TYPE_STRING = 1"
definition GC_TYPE_ARRAY :: nat where "GC_TYPE_ARRAY = 2"
definition GC_TYPE_OBJECT :: nat where "GC_TYPE_OBJECT = 3"
definition GC_TYPE_FUNCTION :: nat where "GC_TYPE_FUNCTION = 4"

text \<open>\<open>sizeof\<close> of the structures, for the LP64 data model.\<close>

definition GC_HEADER_SIZE :: size_t where "GC_HEADER_SIZE = 48"
definition sizeof_mjs_string :: size_t where "sizeof_mjs_string = 40"
definition sizeof_mjs_object :: size_t where "sizeof_mjs_object = 32"
definition sizeof_mjs_array :: size_t where "sizeof_mjs_array = 24"

definition GC_INITIAL_HEAP_SIZE :: size_t where "GC_INITIAL_HEAP_SIZE = 1024 * 1024"
definition GC_GROWTH_FACTOR :: size_t where "GC_GROWTH_FACTOR = 2"
definition GC_YOUNG_GENERATION_SIZE :: size_t where "GC_YOUNG_GENERATION_SIZE = 256 * 1024"

datatype mjs_gc_state = GC_STATE_IDLE | GC_STATE_MARKING | GC_STATE_SWEEPING | GC_STATE_COMPACTING

record mjs_gc_config =
  incremental :: bool
  generational :: bool
  compact :: bool
  threshold_factor :: size_t
  collection_threshold :: size_t
  max_heap_size :: size_t
  enable_compaction :: bool

record mjs_gc_generation =
  objects :: "addr list"
  object_count :: size_t
  total_size :: size_t
  gsize :: size_t
  gcapacity :: size_t
  threshold :: size_t

text \<open>The counters of \<open>mjs_gc_stats_t\<close>; the three clock readings are left out.\<close>

record mjs_gc_stats =
  total_allocations :: size_t
  total_deallocations :: size_t
  total_collections :: size_t
  collections :: size_t
  total_bytes_allocated :: size_t
  total_bytes_freed :: size_t
  bytes_freed :: size_t
  bytes_allocated :: size_t
  objects_allocated :: size_t
  objects_freed :: size_t
  stat_heap_size :: size_t
  stat_heap_used :: size_t
  young_generation_size :: size_t
  old_generation_size :: size_t
  peak_memory_usage :: size_t

text \<open>
  \<open>mjs_weak_ref_t\<close>. A function pointer and a \<open>void*\<close> of the host are opaque numbers.
\<close>

record mjs_weak_ref =
  wr_object :: "addr option"
  callback :: "nat option"
  callback_data :: "nat option"
  userdata :: "nat option"
  cleared :: bool

text \<open>
  \<open>struct mjs_gc\<close>, together with the memory it manages: \<open>cells\<close> is the heap block (one
  cell per allocation, in allocation order), \<open>weak_ref_cells\<close> holds the \<open>malloc\<close>ed weak
  reference structures by handle (\<open>None\<close> once freed), and \<open>callback_log\<close> records every
  call of a weak reference callback with the handle it was made for and its argument.
  The gray stack has its top at the head of the list.
\<close>

record mjs_gc =
  config :: mjs_gc_config
  gc_state :: mjs_gc_state
  heap_used :: size_t
  heap_size :: size_t
  incremental_step :: size_t
  young_generation :: mjs_gc_generation
  old_generation :: mjs_gc_generation
  roots :: "addr list"
  root_capacity :: nat
  gray_stack :: "addr list"
  gray_capacity :: nat
  stats :: mjs_gc_stats
  weak_refs :: "nat list"
  cells :: "gc_cell list"
  weak_ref_cells :: "mjs_weak_ref option list"
  callback_log :: "(nat \<times> nat \<times> nat option) list"

record mjs_runtime =
  gc :: mjs_gc
  string_table :: "addr list"
  memory_limit :: size_t
  memory_usage :: size_t

text \<open>\<open>struct mjs_context\<close>; the VM is kept beside the context (see \<open>mjs_vm\<close>).\<close>

record mjs_context =
  runtime :: mjs_runtime
  global_object :: mjs_value
  error_value :: mjs_value
  error_message :: "string option"
  has_error :: bool


subsection \<open>The collector (gc.c)\<close>

text \<open>
  \<open>mjs_gc_new\<close>: the structure is zeroed by \<open>memset\<close> and then filled in. The assignment
  \<open>config.collection_threshold = GC_COLLECTION_THRESHOLD\<close> stores the constant 0.8 in a
  \<open>size_t\<close> field, which truncates it to 0.
\<close>

definition empty_generation :: "size_t \<Rightarrow> mjs_gc_generation" where
  "empty_generation thr =
     \<lparr>objects = [], object_count = 0, total_size = 0, gsize = 0, gcapacity = 0,
      threshold = thr\<rparr>"

definition zero_stats :: mjs_gc_stats where
  "zero_stats =
     \<lparr>total_allocations = 0, total_deallocations = 0, total_collections = 0, collections = 0,
      total_bytes_allocated = 0, total_bytes_freed = 0, bytes_freed = 0, bytes_allocated = 0,
      objects_allocated = 0, objects_freed = 0, stat_heap_size = 0, stat_heap_used = 0,
      young_generation_size = 0, old_generation_size = 0, peak_memory_usage = 0\<rparr>"

definition mjs_gc_new :: mjs_gc where
  "mjs_gc_new =
     \<lparr>config =
        \<lparr>incremental = True, generational = True, compact = False, threshold_factor = 0,
         collection_threshold = 0, max_heap_size = 0, enable_compaction = False\<rparr>,
      gc_state = GC_STATE_IDLE,
      heap_used = 0,
      heap_size = GC_INITIAL_HEAP_SIZE,
      incremental_step = 0,
      young_generation = empty_generation GC_YOUNG_GENERATION_SIZE,
      old_generation = empty_generation GC_INITIAL_HEAP_SIZE,
      roots = [], root_capacity = 0,
      gray_stack = [], gray_capacity = 0,
      stats = zero_stats,
      weak_refs = [],
      cells = [],
      weak_ref_cells = [],
      callback_log = []\<rparr>"

text \<open>Reading and writing the heap block. \<open>GC_OBJECT_TO_HEADER\<close> is \<open>gc_header\<close>.\<close>

definition gc_header :: "mjs_gc \<Rightarrow> addr \<Rightarrow> mjs_gc_object option" where
  "gc_header g a = (if a < length (cells g) then Some (header (cells g ! a)) else None)"

definition gc_payload_at :: "mjs_gc \<Rightarrow> addr \<Rightarrow> gc_payload option" where
  "gc_payload_at g a = (if a < length (cells g) then Some (payload (cells g ! a)) else None)"

definition gc_set_mark :: "mjs_gc \<Rightarrow> addr \<Rightarrow> nat \<Rightarrow> mjs_gc" where
  "gc_set_mark g a m =
     g\<lparr>cells := (cells g)[a := (cells g ! a)\<lparr>header := (header (cells g ! a))\<lparr>mark := m\<rparr>\<rparr>]\<rparr>"

definition gc_store :: "mjs_gc \<Rightarrow> addr \<Rightarrow> gc_payload \<Rightarrow> mjs_gc" where
  "gc_store g a p = g\<lparr>cells := (cells g)[a := (cells g ! a)\<lparr>payload := p\<rparr>]\<rparr>"

text \<open>
  \<open>gc_mark_object\<close>. The C function is recursive: it marks the object gray, pushes it on
  the gray stack, marks the children its type has, and marks the object black. Each
  recursive call that goes on marks one more white object, so the depth is bounded by the
  number of allocations; the model recurses on that bound. A pointer that is not an
  allocation of the heap has no header to read (undefined in C): the model leaves the
  state alone. A header type that does not fit the payload is treated as a type
  without children.

  As in the source, the value of a property, the elements of an array, and the scope and
  constant pool of a function are not visited.
\<close>

fun gc_mark_object_depth :: "nat \<Rightarrow> mjs_gc \<Rightarrow> addr option \<Rightarrow> mjs_gc" where
  "gc_mark_object_depth 0 g obj = g"
| "gc_mark_object_depth (Suc n) g None = g"
| "gc_mark_object_depth (Suc n) g (Some a) =
     (case gc_header g a of
        None \<Rightarrow> g
      | Some h \<Rightarrow>
          if mark h \<noteq> GC_MARK_WHITE then g
          else
            (let g1 = gc_set_mark g a GC_MARK_GRAY;
                 g2 = g1\<lparr>gray_capacity :=
                          (if length (gray_stack g1) \<ge> gray_capacity g1
                           then (if gray_capacity g1 = 0 then 256 else gray_capacity g1 * 2)
                           else gray_capacity g1),
                        gray_stack := a # gray_stack g1\<rparr>;
                 g3 =
                   (if gc_type h = GC_TYPE_STRING then g2
                    else if gc_type h = GC_TYPE_OBJECT then
                      (case gc_payload_at g a of
                         Some (PObject object) \<Rightarrow>
                           fold (\<lambda>prop g'.
                                   case key prop of
                                     None \<Rightarrow> g'
                                   | Some k \<Rightarrow> gc_mark_object_depth n g' (Some k))
                                (properties object)
                                (case prototype object of
                                   None \<Rightarrow> g2
                                 | Some p \<Rightarrow> gc_mark_object_depth n g2 (Some p))
                       | _ \<Rightarrow> g2)
                    else if gc_type h = GC_TYPE_ARRAY then g2
                    else if gc_type h = GC_TYPE_FUNCTION then
                      (case gc_payload_at g a of
                         Some (PFunction function) \<Rightarrow>
                           (case fname function of
                              None \<Rightarrow> g2
                            | Some nm \<Rightarrow> gc_mark_object_depth n g2 (Some nm))
                       | _ \<Rightarrow> g2)
                    else g2)
             in gc_set_mark g3 a GC_MARK_BLACK))"

definition gc_mark_object :: "mjs_gc \<Rightarrow> addr option \<Rightarrow> mjs_gc" where
  "gc_mark_object g obj = gc_mark_object_depth (Suc (length (cells g))) g obj"

definition gc_mark_roots :: "mjs_gc \<Rightarrow> mjs_gc" where
  "gc_mark_roots g = fold (\<lambda>obj g'. gc_mark_object g' (Some obj)) (roots g) g"

text \<open>
  The loop of \<open>mjs_gc_collect\<close> that empties the gray stack: pop an entry and call
  \<open>gc_mark_object\<close> on it. Every turn pops one entry, and pushes one entry for each white
  object it marks, so \<open>length gray_stack + 2 * length cells\<close> turns are enough.
\<close>

fun gc_process_gray_stack_steps :: "nat \<Rightarrow> mjs_gc \<Rightarrow> mjs_gc" where
  "gc_process_gray_stack_steps 0 g = g"
| "gc_process_gray_stack_steps (Suc n) g =
     (case gray_stack g of
        [] \<Rightarrow> g
      | obj # rest \<Rightarrow>
          gc_process_gray_stack_steps n (gc_mark_object (g\<lparr>gray_stack := rest\<rparr>) (Some obj)))"

definition gc_process_gray_stack :: "mjs_gc \<Rightarrow> mjs_gc" where
  "gc_process_gray_stack g =
     gc_process_gray_stack_steps (length (gray_stack g) + 2 * length (cells g)) g"

text \<open>
  \<open>gc_sweep\<close>, first part: one pass over a generation list. A white object is unlinked
  and counted as freed; any other object stays and has its mark reset to white.
\<close>

definition gc_sweep_unlink :: "bool \<Rightarrow> mjs_gc_object \<Rightarrow> mjs_gc \<Rightarrow> mjs_gc" where
  "gc_sweep_unlink young h g =
     (let bytes = obj_size h + GC_HEADER_SIZE;
          g1 = (if young
                then g\<lparr>young_generation :=
                         (young_generation g)\<lparr>gsize := gsize (young_generation g) - bytes\<rparr>\<rparr>
                else g\<lparr>old_generation :=
                         (old_generation g)\<lparr>gsize := gsize (old_generation g) - bytes\<rparr>\<rparr>)
      in g1\<lparr>stats := (stats g1)\<lparr>objects_freed := objects_freed (stats g1) + 1,
                                 bytes_freed := bytes_freed (stats g1) + bytes\<rparr>\<rparr>)"

fun gc_sweep_chain :: "bool \<Rightarrow> addr list \<Rightarrow> mjs_gc \<Rightarrow> addr list \<times> mjs_gc" where
  "gc_sweep_chain young [] g = ([], g)"
| "gc_sweep_chain young (obj # next) g =
     (case gc_header g obj of
        None \<Rightarrow> (let (kept, g') = gc_sweep_chain young next g in (obj # kept, g'))
      | Some h \<Rightarrow>
          if mark h = GC_MARK_WHITE then gc_sweep_chain young next (gc_sweep_unlink young h g)
          else
            (let (kept, g') = gc_sweep_chain young next (gc_set_mark g obj GC_MARK_WHITE)
             in (obj # kept, g')))"

text \<open>
  \<open>gc_sweep\<close>, second part: the pass over the weak references, run after both generation
  lists have been swept. A reference whose target's mark is white is cleared and its
  callback, if it has one, is called with \<open>userdata\<close>; a cleared reference is unlinked and
  freed.
\<close>

fun gc_sweep_weak_refs :: "nat list \<Rightarrow> mjs_gc \<Rightarrow> nat list \<times> mjs_gc" where
  "gc_sweep_weak_refs [] g = ([], g)"
| "gc_sweep_weak_refs (w # next_weak) g =
     (case (if w < length (weak_ref_cells g) then weak_ref_cells g ! w else None) of
        None \<Rightarrow> (let (kept, g') = gc_sweep_weak_refs next_weak g in (w # kept, g'))
      | Some weak_ref \<Rightarrow>
          (let collected =
                 (case wr_object weak_ref of
                    None \<Rightarrow> False
                  | Some t \<Rightarrow>
                      (case gc_header g t of
                         None \<Rightarrow> False
                       | Some h \<Rightarrow> mark h = GC_MARK_WHITE));
               weak_ref1 = (if collected then weak_ref\<lparr>wr_object := None\<rparr> else weak_ref);
               g1 = (if collected
                     then (case callback weak_ref of
                             None \<Rightarrow> g
                           | Some cb \<Rightarrow>
                               g\<lparr>callback_log := callback_log g @ [(w, cb, userdata weak_ref)]\<rparr>)
                     else g)
           in if wr_object weak_ref1 = None then
                gc_sweep_weak_refs next_weak
                  (g1\<lparr>weak_ref_cells := (weak_ref_cells g1)[w := None]\<rparr>)
              else
                (let (kept, g') =
                       gc_sweep_weak_refs next_weak
                         (g1\<lparr>weak_ref_cells := (weak_ref_cells g1)[w := Some weak_ref1]\<rparr>)
                 in (w # kept, g'))))"

definition gc_sweep :: "mjs_gc \<Rightarrow> mjs_gc" where
  "gc_sweep g =
     (let (young_kept, g1) = gc_sweep_chain True (objects (young_generation g)) g;
          g2 = g1\<lparr>young_generation := (young_generation g1)\<lparr>objects := young_kept\<rparr>\<rparr>;
          (old_kept, g3) = gc_sweep_chain False (objects (old_generation g2)) g2;
          g4 = g3\<lparr>old_generation := (old_generation g3)\<lparr>objects := old_kept\<rparr>\<rparr>;
          (weak_kept, g5) = gc_sweep_weak_refs (weak_refs g4) g4
      in g5\<lparr>weak_refs := weak_kept\<rparr>)"

text \<open>\<open>gc_compact\<close> has an empty body in the source.\<close>

definition gc_compact :: "mjs_gc \<Rightarrow> mjs_gc" where
  "gc_compact g = g"

definition gc_update_statistics :: "mjs_gc \<Rightarrow> mjs_gc" where
  "gc_update_statistics g =
     g\<lparr>stats := (stats g)\<lparr>stat_heap_size := heap_size g,
                             stat_heap_used := heap_used g,
                             young_generation_size := gsize (young_generation g),
                             old_generation_size := gsize (old_generation g)\<rparr>\<rparr>"

definition mjs_gc_collect :: "mjs_gc \<Rightarrow> mjs_gc" where
  "mjs_gc_collect g =
     (let g1 = gc_mark_roots (g\<lparr>gc_state := GC_STATE_MARKING\<rparr>);
          g2 = gc_process_gray_stack g1;
          g3 = gc_sweep (g2\<lparr>gc_state := GC_STATE_SWEEPING\<rparr>);
          g4 = (if compact (config g3) then gc_compact (g3\<lparr>gc_state := GC_STATE_COMPACTING\<rparr>)
                else g3);
          g5 = g4\<lparr>gc_state := GC_STATE_IDLE\<rparr>;
          g6 = g5\<lparr>stats := (stats g5)\<lparr>collections := collections (stats g5) + 1\<rparr>\<rparr>
      in gc_update_statistics g6)"

definition gc_should_collect :: "mjs_gc \<Rightarrow> bool" where
  "gc_should_collect g =
     (let usage_ratio =
            d_div (DNum (of_nat (unat (heap_used g)))) (DNum (of_nat (unat (heap_size g))))
      in if d_ge usage_ratio (DNum (of_nat (unat (collection_threshold (config g))))) then True
         else if generational (config g)
                 \<and> gsize (young_generation g) \<ge> gcapacity (young_generation g) then True
         else False)"

text \<open>
  \<open>mjs_gc_alloc\<close>. The new cell's payload is \<open>Uninit\<close> until the caller fills it in; the
  address returned is the ordinal of the cell.
\<close>

definition gc_alloc_object :: "mjs_gc \<Rightarrow> size_t \<Rightarrow> nat \<Rightarrow> addr option \<times> mjs_gc" where
  "gc_alloc_object g sz ty =
     (let total_size = sz + GC_HEADER_SIZE;
          object = length (cells g);
          hdr = \<lparr>gc_type = ty, mark = GC_MARK_WHITE, generation = 0, obj_size = sz\<rparr>;
          g1 = g\<lparr>cells := cells g @ [\<lparr>header = hdr, payload = Uninit\<rparr>]\<rparr>;
          g2 = g1\<lparr>young_generation :=
                    (young_generation g1)\<lparr>objects := object # objects (young_generation g1),
                                           gsize := gsize (young_generation g1) + total_size\<rparr>\<rparr>;
          g3 = g2\<lparr>heap_used := heap_used g2 + total_size\<rparr>;
          g4 = g3\<lparr>stats :=
                    (stats g3)\<lparr>total_allocations := total_allocations (stats g3) + 1,
                                total_bytes_allocated :=
                                  total_bytes_allocated (stats g3) + total_size\<rparr>\<rparr>
      in (Some object, g4))"

definition mjs_gc_alloc :: "mjs_gc \<Rightarrow> size_t \<Rightarrow> nat \<Rightarrow> addr option \<times> mjs_gc" where
  "mjs_gc_alloc g sz ty =
     (if sz = 0 then (None, g)
      else
        (let g1 = (if gc_should_collect g then mjs_gc_collect g else g);
             total_size = sz + GC_HEADER_SIZE
         in if heap_used g1 + total_size > heap_size g1 then
              (let g2 = mjs_gc_collect g1
               in if heap_used g2 + total_size > heap_size g2 then
                    (let new_heap_size = heap_size g2 * GC_GROWTH_FACTOR
                     in if max_heap_size (config g2) > 0
                           \<and> new_heap_size > max_heap_size (config g2)
                        then (None, g2)
                        else gc_alloc_object (g2\<lparr>heap_size := new_heap_size\<rparr>) sz ty)
                  else gc_alloc_object g2 sz ty)
            else gc_alloc_object g1 sz ty))"

text \<open>Roots: a growing array; removal moves the last entry into the freed slot.\<close>

definition mjs_gc_add_root :: "mjs_gc \<Rightarrow> addr option \<Rightarrow> bool \<times> mjs_gc" where
  "mjs_gc_add_root g rootp =
     (case rootp of
        None \<Rightarrow> (False, g)
      | Some r \<Rightarrow>
          (let g1 = (if length (roots g) \<ge> root_capacity g
                     then g\<lparr>root_capacity :=
                              (if root_capacity g = 0 then 16 else root_capacity g * 2)\<rparr>
                     else g)
           in (True, g1\<lparr>roots := roots g1 @ [r]\<rparr>)))"

fun first_index :: "'a list \<Rightarrow> 'a \<Rightarrow> nat option" where
  "first_index [] x = None"
| "first_index (y # ys) x =
     (if y = x then Some 0 else (case first_index ys x of None \<Rightarrow> None | Some i \<Rightarrow> Some (Suc i)))"

definition mjs_gc_remove_root :: "mjs_gc \<Rightarrow> addr option \<Rightarrow> bool \<times> mjs_gc" where
  "mjs_gc_remove_root g rootp =
     (case rootp of
        None \<Rightarrow> (False, g)
      | Some r \<Rightarrow>
          (case first_index (roots g) r of
             None \<Rightarrow> (False, g)
           | Some i \<Rightarrow> (True, g\<lparr>roots := butlast ((roots g)[i := last (roots g)])\<rparr>)))"






subsection \<open>The C library functions the sources call\<close>

text \<open>
  \<open>memcmp\<close> over the first \<open>n\<close> bytes of two buffers: zero, or the difference of the first
  two bytes that differ (as \<open>unsigned char\<close>).
\<close>

fun memcmp :: "string \<Rightarrow> string \<Rightarrow> nat \<Rightarrow> int" where
  "memcmp (a # as) (b # bs) (Suc n) =
     (if a = b then memcmp as bs n else int (of_char a) - int (of_char b))"
| "memcmp _ _ _ = 0"

text \<open>\<open>isspace\<close>, \<open>isdigit\<close>, \<open>isxdigit\<close> and \<open>tolower\<close> in the C locale.\<close>

definition isspace :: "char \<Rightarrow> bool" where
  "isspace c = (c \<in> set [CHR '' '', CHR 0x09, CHR 0x0A, CHR 0x0B, CHR 0x0C, CHR 0x0D])"

definition isdigit :: "char \<Rightarrow> bool" where
  "isdigit c = (let n = (of_char c :: nat) in 48 \<le> n \<and> n \<le> 57)"

definition digit_val :: "char \<Rightarrow> nat" where
  "digit_val c = of_char c - 48"

definition tolower :: "char \<Rightarrow> char" where
  "tolower c = (let n = (of_char c :: nat) in if 65 \<le> n \<and> n \<le> 90 then char_of (n + 32) else c)"

definition isxdigit :: "char \<Rightarrow> bool" where
  "isxdigit c = (isdigit c \<or> (let n = (of_char (tolower c) :: nat) in 97 \<le> n \<and> n \<le> 102))"

definition xdigit_val :: "char \<Rightarrow> nat" where
  "xdigit_val c = (if isdigit c then digit_val c else of_char (tolower c) - 87)"

definition isalnum_us :: "char \<Rightarrow> bool" where
  "isalnum_us c =
     (isdigit c \<or> c = CHR ''_'' \<or> (let n = (of_char (tolower c) :: nat) in 97 \<le> n \<and> n \<le> 122))"

text \<open>
  \<open>strtod\<close> (ISO C 7.22.1.3) on a string without NUL bytes: the value and the rest of the
  input after the longest prefix that is white space, an optional sign, and a decimal
  number, a hexadecimal number, \<open>inf\<close>, \<open>infinity\<close> or \<open>nan\<close> with an optional
  parenthesised tag (letters in either case). When no such prefix exists the value is 0
  and the rest is the whole input. The value is exact: overflow to infinity and rounding
  are not modelled.
\<close>

definition pow_int :: "rat \<Rightarrow> int \<Rightarrow> rat" where
  "pow_int b e = (if e \<ge> 0 then b ^ nat e else 1 / b ^ nat (- e))"

definition dec_value :: "string \<Rightarrow> nat" where
  "dec_value ds = foldl (\<lambda>n c. 10 * n + digit_val c) 0 ds"

definition hex_value :: "string \<Rightarrow> nat" where
  "hex_value ds = foldl (\<lambda>n c. 16 * n + xdigit_val c) 0 ds"

text \<open>An exponent part: the marker, an optional sign, and at least one digit.\<close>

definition strtod_exponent :: "char \<Rightarrow> string \<Rightarrow> int \<times> string" where
  "strtod_exponent marker s =
     (case s of
        [] \<Rightarrow> (0, s)
      | c # t \<Rightarrow>
          if tolower c \<noteq> marker then (0, s)
          else
            (let (neg, u) =
                   (case t of
                      [] \<Rightarrow> (False, t)
                    | d # v \<Rightarrow>
                        if d = CHR ''-'' then (True, v)
                        else if d = CHR ''+'' then (False, v)
                        else (False, t));
                 ds = takeWhile isdigit u
             in if ds = [] then (0, s)
                else ((if neg then - int (dec_value ds) else int (dec_value ds)),
                      dropWhile isdigit u)))"

definition strtod_mantissa ::
  "(char \<Rightarrow> bool) \<Rightarrow> string \<Rightarrow> (string \<times> string \<times> string) option" where
  "strtod_mantissa is_dig s =
     (let ip = takeWhile is_dig s;
          r1 = dropWhile is_dig s;
          (fp, r2) =
            (case r1 of
               [] \<Rightarrow> ([], r1)
             | c # t \<Rightarrow>
                 if c = CHR ''.'' then (takeWhile is_dig t, dropWhile is_dig t) else ([], r1))
      in if ip = [] \<and> fp = [] then None else Some (ip, fp, r2))"

definition strtod_decimal :: "string \<Rightarrow> (rat \<times> string) option" where
  "strtod_decimal s =
     (case strtod_mantissa isdigit s of
        None \<Rightarrow> None
      | Some (ip, fp, r) \<Rightarrow>
          (let (e, r') = strtod_exponent (CHR ''e'') r
           in Some (of_nat (dec_value (ip @ fp)) / 10 ^ length fp * pow_int 10 e, r')))"

definition strtod_hex :: "string \<Rightarrow> (rat \<times> string) option" where
  "strtod_hex s =
     (case s of
        z # x # t \<Rightarrow>
          if z = CHR ''0'' \<and> tolower x = CHR ''x'' then
            (case strtod_mantissa isxdigit t of
               None \<Rightarrow> None
             | Some (ip, fp, r) \<Rightarrow>
                 (let (e, r') = strtod_exponent (CHR ''p'') r
                  in Some (of_nat (hex_value (ip @ fp)) / 16 ^ length fp * pow_int 2 e, r')))
          else None
      | _ \<Rightarrow> None)"

fun strip_prefix_ci :: "string \<Rightarrow> string \<Rightarrow> string option" where
  "strip_prefix_ci [] s = Some s"
| "strip_prefix_ci (p # ps) [] = None"
| "strip_prefix_ci (p # ps) (c # cs) = (if tolower c = p then strip_prefix_ci ps cs else None)"

definition strtod_nan_tag :: "string \<Rightarrow> string" where
  "strtod_nan_tag s =
     (case s of
        [] \<Rightarrow> s
      | c # t \<Rightarrow>
          if c = CHR ''('' then
            (case dropWhile isalnum_us t of
               [] \<Rightarrow> s
             | d # u \<Rightarrow> if d = CHR '')'' then u else s)
          else s)"

definition strtod :: "string \<Rightarrow> double \<times> string" where
  "strtod nptr =
     (let s0 = dropWhile isspace nptr;
          (neg, s1) =
            (case s0 of
               [] \<Rightarrow> (False, s0)
             | c # t \<Rightarrow>
                 if c = CHR ''-'' then (True, t)
                 else if c = CHR ''+'' then (False, t)
                 else (False, s0));
          signed = (\<lambda>d. if neg then d_neg d else d)
      in case strip_prefix_ci ''infinity'' s1 of
           Some r \<Rightarrow> (signed DPosInf, r)
         | None \<Rightarrow>
             (case strip_prefix_ci ''inf'' s1 of
                Some r \<Rightarrow> (signed DPosInf, r)
              | None \<Rightarrow>
                  (case strip_prefix_ci ''nan'' s1 of
                     Some r \<Rightarrow> (DNaN, strtod_nan_tag r)
                   | None \<Rightarrow>
                       (case strtod_hex s1 of
                          Some (q, r) \<Rightarrow> (signed (DNum q), r)
                        | None \<Rightarrow>
                            (case strtod_decimal s1 of
                               Some (q, r) \<Rightarrow> (signed (DNum q), r)
                             | None \<Rightarrow> (DNum 0, nptr))))))"

text \<open>
  \<open>snprintf(buffer, 32, "%.15g", d)\<close>: 15 significant decimal digits, rounded to nearest
  with ties to even; scientific notation when the decimal exponent is below -4 or at
  least 15; trailing zeros of the fraction removed. No output of this format reaches 32
  bytes.
\<close>

fun dec_digits :: "nat \<Rightarrow> string" where
  "dec_digits n =
     (if n < 10 then [char_of (48 + n)] else dec_digits (n div 10) @ [char_of (48 + n mod 10)])"

definition round_half_even :: "rat \<Rightarrow> int" where
  "round_half_even x =
     (let f = \<lfloor>x\<rfloor>; r = x - of_int f
      in if r < 1 / 2 then f else if r > 1 / 2 then f + 1 else if even f then f else f + 1)"

definition strip_zeros :: "string \<Rightarrow> string" where
  "strip_zeros ds = rev (dropWhile (\<lambda>c. c = CHR ''0'') (rev ds))"

definition fmt_g15_abs :: "rat \<Rightarrow> string" where
  "fmt_g15_abs a =
     (let (n, d) = quotient_of a;
          e0 = int (length (dec_digits (nat n))) - int (length (dec_digits (nat d)));
          e1 = (if pow_int 10 e0 \<le> a then e0 else e0 - 1);
          m1 = round_half_even (a * pow_int 10 (14 - e1));
          (m, e) = (if m1 = 10 ^ 15 then (10 ^ 14, e1 + 1) else (m1, e1));
          ds = dec_digits (nat m)
      in if e < - 4 \<or> e \<ge> 15 then
           (let frac = strip_zeros (tl ds);
                ex = dec_digits (nat \<bar>e\<bar>)
            in [hd ds] @ (if frac = [] then [] else CHR ''.'' # frac) @ ''e''
               @ (if e < 0 then ''-'' else ''+'') @ (if length ex < 2 then CHR ''0'' # ex else ex))
         else if e \<ge> 0 then
           (let frac = strip_zeros (drop (nat e + 1) ds)
            in take (nat e + 1) ds @ (if frac = [] then [] else CHR ''.'' # frac))
         else
           ''0.'' @ replicate (nat (- e - 1)) (CHR ''0'') @ strip_zeros ds)"

definition fmt_g15 :: "double \<Rightarrow> string" where
  "fmt_g15 d =
     (case d of
        DNaN \<Rightarrow> ''nan''
      | DPosInf \<Rightarrow> ''inf''
      | DNegInf \<Rightarrow> ''-inf''
      | DNum q \<Rightarrow>
          if q = 0 then ''0''
          else if q < 0 then CHR ''-'' # fmt_g15_abs (- q)
          else fmt_g15_abs q)"


subsection \<open>Strings (string.c)\<close>

text \<open>
  Following a pointer into the heap. A pointer that does not lead to an initialised
  structure of the expected type (undefined in C) is read as \<open>NULL\<close>.
\<close>

definition gc_string :: "mjs_gc \<Rightarrow> addr option \<Rightarrow> mjs_string option" where
  "gc_string g p =
     (case p of
        None \<Rightarrow> None
      | Some a \<Rightarrow> (case gc_payload_at g a of Some (PString s) \<Rightarrow> Some s | _ \<Rightarrow> None))"

definition gc_object :: "mjs_gc \<Rightarrow> addr option \<Rightarrow> mjs_object option" where
  "gc_object g p =
     (case p of
        None \<Rightarrow> None
      | Some a \<Rightarrow> (case gc_payload_at g a of Some (PObject ob) \<Rightarrow> Some ob | _ \<Rightarrow> None))"

definition gc_array :: "mjs_gc \<Rightarrow> addr option \<Rightarrow> mjs_array option" where
  "gc_array g p =
     (case p of
        None \<Rightarrow> None
      | Some a \<Rightarrow> (case gc_payload_at g a of Some (PArray ar) \<Rightarrow> Some ar | _ \<Rightarrow> None))"

definition ctx_gc :: "mjs_context \<Rightarrow> mjs_gc" where
  "ctx_gc ctx = gc (runtime ctx)"

definition ctx_set_gc :: "mjs_context \<Rightarrow> mjs_gc \<Rightarrow> mjs_context" where
  "ctx_set_gc ctx g = ctx\<lparr>runtime := (runtime ctx)\<lparr>gc := g\<rparr>\<rparr>"

text \<open>
  \<open>mjs_string_new(ctx, data, length)\<close>: the argument \<open>dat\<close> is the \<open>length\<close> bytes that the
  call copies.
\<close>

definition mjs_string_new :: "mjs_context \<Rightarrow> string \<Rightarrow> addr option \<times> mjs_context" where
  "mjs_string_new ctx dat =
     (case mjs_gc_alloc (ctx_gc ctx) sizeof_mjs_string GC_TYPE_STRING of
        (None, g) \<Rightarrow> (None, ctx_set_gc ctx g)
      | (Some str, g) \<Rightarrow>
          (Some str,
           ctx_set_gc ctx (gc_store g str (PString \<lparr>data = dat, is_interned = False\<rparr>))))"



text \<open>
  \<open>mjs_string_compare\<close>: for strings of different lengths the result is the difference
  of the two \<open>size_t\<close> lengths converted to \<open>int\<close>.
\<close>

definition mjs_string_compare :: "mjs_string option \<Rightarrow> mjs_string option \<Rightarrow> int" where
  "mjs_string_compare a b =
     (case (a, b) of
        (None, None) \<Rightarrow> 0
      | (None, Some _) \<Rightarrow> - 1
      | (Some _, None) \<Rightarrow> 1
      | (Some sa, Some sb) \<Rightarrow>
          if length (data sa) \<noteq> length (data sb)
          then sint (ucast ((word_of_nat (length (data sa)) :: size_t)
                            - word_of_nat (length (data sb))) :: 32 word)
          else memcmp (data sa) (data sb) (length (data sa)))"

text \<open>\<open>mjs_string_to_number\<close>, the conversion that string.c offers.\<close>

definition mjs_string_to_number :: "mjs_string option \<Rightarrow> double" where
  "mjs_string_to_number str =
     (case str of
        None \<Rightarrow> DNum 0
      | Some s \<Rightarrow>
          if length (data s) = 0 then DNum 0
          else if MJS_STREQ (data s) ''NaN'' then DNaN
          else if MJS_STREQ (data s) ''Infinity'' then DPosInf
          else if MJS_STREQ (data s) ''-Infinity'' then DNegInf
          else
            (let start = dropWhile isspace (c_str (data s));
                 (result, e) = strtod start;
                 e' = dropWhile isspace e
             in if e' \<noteq> [] then DNaN else result))"

subsection \<open>Values and the context (runtime.c)\<close>

definition mjs_undefined :: mjs_value where "mjs_undefined = VUndefined"
definition mjs_null :: mjs_value where "mjs_null = VNull"
definition mjs_boolean :: "bool \<Rightarrow> mjs_value" where "mjs_boolean val = VBoolean val"
definition mjs_number :: "double \<Rightarrow> mjs_value" where "mjs_number val = VNumber val"

definition mjs_value_undefined :: mjs_value where "mjs_value_undefined = mjs_undefined"
definition mjs_value_null :: mjs_value where "mjs_value_null = mjs_null"
definition mjs_value_boolean :: "bool \<Rightarrow> mjs_value" where "mjs_value_boolean b = mjs_boolean b"
definition mjs_value_number :: "double \<Rightarrow> mjs_value" where "mjs_value_number n = mjs_number n"

definition mjs_value_string :: "addr option \<Rightarrow> mjs_value" where
  "mjs_value_string str = (case str of None \<Rightarrow> mjs_undefined | Some _ \<Rightarrow> VString str)"

definition mjs_value_array :: "addr option \<Rightarrow> mjs_value" where
  "mjs_value_array arr = (case arr of None \<Rightarrow> mjs_undefined | Some _ \<Rightarrow> VArray arr)"

definition mjs_value_object :: "addr option \<Rightarrow> mjs_value" where
  "mjs_value_object obj = (case obj of None \<Rightarrow> mjs_undefined | Some _ \<Rightarrow> VObject obj)"

fun mjs_get_type :: "mjs_value \<Rightarrow> mjs_value_type" where
  "mjs_get_type VUndefined = MJS_TYPE_UNDEFINED"
| "mjs_get_type VNull = MJS_TYPE_NULL"
| "mjs_get_type (VBoolean _) = MJS_TYPE_BOOLEAN"
| "mjs_get_type (VNumber _) = MJS_TYPE_NUMBER"
| "mjs_get_type (VString _) = MJS_TYPE_STRING"
| "mjs_get_type (VObject _) = MJS_TYPE_OBJECT"
| "mjs_get_type (VFunction _) = MJS_TYPE_FUNCTION"
| "mjs_get_type (VArray _) = MJS_TYPE_ARRAY"
| "mjs_get_type VBigint = MJS_TYPE_BIGINT"
| "mjs_get_type VSymbol = MJS_TYPE_SYMBOL"

definition mjs_is_string :: "mjs_value \<Rightarrow> bool" where
  "mjs_is_string v = (case v of VString _ \<Rightarrow> True | _ \<Rightarrow> False)"

definition mjs_is_object :: "mjs_value \<Rightarrow> bool" where
  "mjs_is_object v = (case v of VObject _ \<Rightarrow> True | _ \<Rightarrow> False)"

definition mjs_is_function :: "mjs_value \<Rightarrow> bool" where
  "mjs_is_function v = (case v of VFunction _ \<Rightarrow> True | _ \<Rightarrow> False)"

definition mjs_is_array :: "mjs_value \<Rightarrow> bool" where
  "mjs_is_array v = (case v of VArray _ \<Rightarrow> True | _ \<Rightarrow> False)"

text \<open>
  The coercions read the string a value points at, so the model passes them the heap.
\<close>

definition mjs_to_boolean :: "mjs_gc \<Rightarrow> mjs_value \<Rightarrow> bool" where
  "mjs_to_boolean g v =
     (case v of
        VUndefined \<Rightarrow> False
      | VNull \<Rightarrow> False
      | VBoolean b \<Rightarrow> b
      | VNumber n \<Rightarrow> \<not> d_eq n (DNum 0) \<and> \<not> d_isnan n
      | VString p \<Rightarrow> (case gc_string g p of None \<Rightarrow> False | Some s \<Rightarrow> length (data s) > 0)
      | VObject _ \<Rightarrow> True
      | VFunction _ \<Rightarrow> True
      | VArray _ \<Rightarrow> True
      | _ \<Rightarrow> False)"

text \<open>
  \<open>mjs_to_number\<close>: for a string it returns \<open>strtod(data, NULL)\<close>, the value of the longest
  numeric prefix, and 0 when there is none.
\<close>

definition mjs_to_number :: "mjs_gc \<Rightarrow> mjs_value \<Rightarrow> double" where
  "mjs_to_number g v =
     (case v of
        VUndefined \<Rightarrow> DNaN
      | VNull \<Rightarrow> DNum 0
      | VBoolean b \<Rightarrow> (if b then DNum 1 else DNum 0)
      | VNumber n \<Rightarrow> n
      | VString p \<Rightarrow>
          (case gc_string g p of
             None \<Rightarrow> DNum 0
           | Some s \<Rightarrow>
               if length (data s) = 0 then DNum 0 else fst (strtod (c_str (data s))))
      | _ \<Rightarrow> DNaN)"

text \<open>\<open>mjs_to_string\<close> returns a \<open>const char*\<close>, never \<open>NULL\<close>.\<close>

definition mjs_to_string :: "mjs_gc \<Rightarrow> mjs_value \<Rightarrow> string option" where
  "mjs_to_string g v =
     (case v of
        VUndefined \<Rightarrow> Some ''undefined''
      | VNull \<Rightarrow> Some ''null''
      | VBoolean b \<Rightarrow> Some (if b then ''true'' else ''false'')
      | VNumber n \<Rightarrow> Some (fmt_g15 n)
      | VString p \<Rightarrow> (case gc_string g p of None \<Rightarrow> Some [] | Some s \<Rightarrow> Some (c_str (data s)))
      | VObject _ \<Rightarrow> Some ''[object Object]''
      | VFunction _ \<Rightarrow> Some ''[object Function]''
      | VArray _ \<Rightarrow> Some ''[object Array]''
      | _ \<Rightarrow> Some [])"

definition mjs_get_boolean :: "mjs_value \<Rightarrow> bool" where
  "mjs_get_boolean v = (case v of VBoolean b \<Rightarrow> b | _ \<Rightarrow> False)"

definition mjs_get_number :: "mjs_value \<Rightarrow> double" where
  "mjs_get_number v = (case v of VNumber n \<Rightarrow> n | _ \<Rightarrow> DNum 0)"

definition mjs_get_string :: "mjs_value \<Rightarrow> addr option" where
  "mjs_get_string v = (case v of VString p \<Rightarrow> p | _ \<Rightarrow> None)"

definition mjs_get_object :: "mjs_value \<Rightarrow> addr option" where
  "mjs_get_object v = (case v of VObject p \<Rightarrow> p | _ \<Rightarrow> None)"

definition mjs_get_array :: "mjs_value \<Rightarrow> addr option" where
  "mjs_get_array v = (case v of VArray p \<Rightarrow> p | _ \<Rightarrow> None)"

text \<open>
  \<open>mjs_eval\<close>. The arguments are pointers that a host may pass as \<open>NULL\<close>; \<open>result\<close> tells
  whether the result pointer is one. The function returns the result code and what it
  stored through \<open>result\<close>, if anything. The body of the source assigns \<open>undefined\<close> and
  returns \<open>MJS_OK\<close>: it calls neither the parser, nor the compiler, nor the VM.
\<close>

definition mjs_eval ::
  "mjs_context option \<Rightarrow> string option \<Rightarrow> string option \<Rightarrow> bool
     \<Rightarrow> mjs_result \<times> mjs_value option" where
  "mjs_eval ctx source filename result =
     (if ctx = None \<or> source = None \<or> \<not> result
      then (MJS_ERROR_TYPE, if result then Some mjs_undefined else None)
      else (MJS_OK, Some mjs_undefined))"


subsection \<open>Objects (object.c)\<close>

definition mjs_object_new :: "mjs_context \<Rightarrow> addr option \<times> mjs_context" where
  "mjs_object_new ctx =
     (case mjs_gc_alloc (ctx_gc ctx) sizeof_mjs_object GC_TYPE_OBJECT of
        (None, g) \<Rightarrow> (None, ctx_set_gc ctx g)
      | (Some obj, g) \<Rightarrow>
          (Some obj,
           ctx_set_gc ctx
             (gc_store g obj
                (PObject \<lparr>properties = [], prototype = None, extensible = True,
                          property_count = 0\<rparr>))))"

text \<open>
  The walk along the property chain that \<open>mjs_object_get_property\<close>,
  \<open>mjs_context_get_variable\<close> and \<open>mjs_context_set_variable\<close> make: the position of the
  first property whose key is not \<open>NULL\<close> and equals \<open>k\<close> under \<open>strcmp\<close>.
\<close>

fun find_property :: "mjs_gc \<Rightarrow> mjs_property list \<Rightarrow> string \<Rightarrow> nat option" where
  "find_property g [] k = None"
| "find_property g (prop # next) k =
     (if (case gc_string g (key prop) of None \<Rightarrow> False | Some ks \<Rightarrow> MJS_STREQ (data ks) k)
      then Some 0
      else (case find_property g next k of None \<Rightarrow> None | Some i \<Rightarrow> Some (Suc i)))"

text \<open>
  \<open>mjs_object_get_property\<close> returns a pointer to the property found: here the object's
  address is kept and the property is named by its position in the chain.
\<close>

definition mjs_object_get_property :: "mjs_gc \<Rightarrow> addr option \<Rightarrow> string option \<Rightarrow> nat option" where
  "mjs_object_get_property g obj k =
     (case (gc_object g obj, k) of
        (Some ob, Some ks) \<Rightarrow> find_property g (properties ob) ks
      | _ \<Rightarrow> None)"

definition mjs_object_get_property_value ::
  "mjs_gc \<Rightarrow> addr option \<Rightarrow> string option \<Rightarrow> mjs_value" where
  "mjs_object_get_property_value g obj k =
     (case (gc_object g obj, k) of
        (Some ob, Some ks) \<Rightarrow>
          (case mjs_object_get_property g obj k of
             Some i \<Rightarrow> pvalue (properties ob ! i)
           | None \<Rightarrow> mjs_value_undefined)
      | _ \<Rightarrow> mjs_value_undefined)"

definition gc_store_object :: "mjs_gc \<Rightarrow> addr option \<Rightarrow> mjs_object \<Rightarrow> mjs_gc" where
  "gc_store_object g obj ob = (case obj of None \<Rightarrow> g | Some a \<Rightarrow> gc_store g a (PObject ob))"

text \<open>
  \<open>mjs_object_set_property\<close>: an existing property is overwritten when it is writable; a
  new property is linked at the head of the chain with \<open>key = NULL\<close> (the source has no
  context at hand to allocate the key string).
\<close>

definition mjs_object_set_property ::
  "mjs_gc \<Rightarrow> addr option \<Rightarrow> string option \<Rightarrow> mjs_value \<Rightarrow> mjs_gc" where
  "mjs_object_set_property g obj k v =
     (case (gc_object g obj, k) of
        (Some ob, Some ks) \<Rightarrow>
          (case mjs_object_get_property g obj k of
             Some i \<Rightarrow>
               if writable (properties ob ! i)
               then gc_store_object g obj
                      (ob\<lparr>properties := (properties ob)[i := (properties ob ! i)\<lparr>pvalue := v\<rparr>]\<rparr>)
               else g
           | None \<Rightarrow>
               gc_store_object g obj
                 (ob\<lparr>properties :=
                       \<lparr>key = None, pvalue = v, writable = True, enumerable = True,
                        configurable = True\<rparr> # properties ob,
                     property_count := property_count ob + 1\<rparr>))
      | _ \<Rightarrow> g)"

definition mjs_object_has_property :: "mjs_gc \<Rightarrow> addr option \<Rightarrow> string option \<Rightarrow> bool" where
  "mjs_object_has_property g obj k = (mjs_object_get_property g obj k \<noteq> None)"

text \<open>\<open>strlen\<close> stops at the first NUL byte, so the key string allocated is \<open>c_str k\<close>.\<close>

definition mjs_object_define_property ::
  "mjs_context \<Rightarrow> addr option \<Rightarrow> string option \<Rightarrow> mjs_value \<Rightarrow> bool \<Rightarrow> bool \<Rightarrow> bool
     \<Rightarrow> mjs_result \<times> mjs_context" where
  "mjs_object_define_property ctx obj k v w e c =
     (case (gc_object (ctx_gc ctx) obj, k) of
        (Some ob, Some ks) \<Rightarrow>
          if \<not> extensible ob then (MJS_ERROR_TYPE, ctx)
          else
            (case mjs_object_get_property (ctx_gc ctx) obj k of
               Some i \<Rightarrow>
                 if \<not> configurable (properties ob ! i) then (MJS_ERROR_TYPE, ctx)
                 else
                   (MJS_OK,
                    ctx_set_gc ctx
                      (gc_store_object (ctx_gc ctx) obj
                         (ob\<lparr>properties :=
                               (properties ob)
                                 [i := (properties ob ! i)\<lparr>pvalue := v, writable := w,
                                                           enumerable := e,
                                                           configurable := c\<rparr>]\<rparr>)))
             | None \<Rightarrow>
                 (case mjs_string_new ctx (c_str ks) of
                    (None, ctx1) \<Rightarrow> (MJS_ERROR_MEMORY, ctx1)
                  | (Some ka, ctx1) \<Rightarrow>
                      (MJS_OK,
                       ctx_set_gc ctx1
                         (gc_store_object (ctx_gc ctx1) obj
                            (ob\<lparr>properties :=
                                  \<lparr>key = Some ka, pvalue = v, writable = w, enumerable = e,
                                   configurable = c\<rparr> # properties ob,
                                property_count := property_count ob + 1\<rparr>)))))
      | _ \<Rightarrow> (MJS_ERROR_TYPE, ctx))"

text \<open>
  The global variables of a context (runtime.c). The source reads
  \<open>ctx->global_object.u.object\<close> without looking at the tag; a global object that is not an
  object value is read as \<open>NULL\<close>.
\<close>

definition ctx_global :: "mjs_context \<Rightarrow> addr option" where
  "ctx_global ctx = (case global_object ctx of VObject p \<Rightarrow> p | _ \<Rightarrow> None)"

definition mjs_context_get_variable :: "mjs_context \<Rightarrow> string \<Rightarrow> bool \<times> mjs_value" where
  "mjs_context_get_variable ctx name =
     (case gc_object (ctx_gc ctx) (ctx_global ctx) of
        None \<Rightarrow> (False, mjs_undefined)
      | Some global \<Rightarrow>
          (case find_property (ctx_gc ctx) (properties global) name of
             Some i \<Rightarrow> (True, pvalue (properties global ! i))
           | None \<Rightarrow> (False, mjs_undefined)))"

definition mjs_context_set_variable ::
  "mjs_context \<Rightarrow> string \<Rightarrow> mjs_value \<Rightarrow> bool \<times> mjs_context" where
  "mjs_context_set_variable ctx name v =
     (case gc_object (ctx_gc ctx) (ctx_global ctx) of
        None \<Rightarrow> (False, ctx)
      | Some global \<Rightarrow>
          (case find_property (ctx_gc ctx) (properties global) name of
             Some i \<Rightarrow>
               (True,
                ctx_set_gc ctx
                  (gc_store_object (ctx_gc ctx) (ctx_global ctx)
                     (global\<lparr>properties :=
                               (properties global)[i := (properties global ! i)\<lparr>pvalue := v\<rparr>]\<rparr>)))
           | None \<Rightarrow>
               (let (ka, ctx1) = mjs_string_new ctx (c_str name)
                in (True,
                    ctx_set_gc ctx1
                      (gc_store_object (ctx_gc ctx1) (ctx_global ctx)
                         (global\<lparr>properties :=
                                   \<lparr>key = ka, pvalue = v, writable = True, enumerable = True,
                                    configurable = True\<rparr> # properties global,
                                 property_count := property_count global + 1\<rparr>))))))"

subsection \<open>Arrays (array.c)\<close>

definition mjs_array_new :: "mjs_context \<Rightarrow> nat \<Rightarrow> addr option \<times> mjs_context" where
  "mjs_array_new ctx initial_capacity =
     (case mjs_gc_alloc (ctx_gc ctx) sizeof_mjs_array GC_TYPE_ARRAY of
        (None, g) \<Rightarrow> (None, ctx_set_gc ctx g)
      | (Some arr, g) \<Rightarrow>
          (let cap = (if initial_capacity > 0 then initial_capacity else 4)
           in (Some arr,
               ctx_set_gc ctx
                 (gc_store g arr
                    (PArray \<lparr>elements = replicate cap mjs_value_undefined, alength = 0,
                             acapacity = cap\<rparr>)))))"

text \<open>
  \<open>sizeof(mjs_value_t)\<close>: a tag and a union of a \<open>double\<close> and pointers.
\<close>

definition sizeof_mjs_value :: nat where
  "sizeof_mjs_value = 16"

text \<open>
  The doubling loop of \<open>mjs_array_ensure_capacity\<close>. The capacity is a \<open>size_t\<close>, so the
  product wraps at \<open>2^64\<close>. After 64 doublings every capacity is 0, and from 0 the loop
  never ends; 66 turns therefore decide, and \<open>None\<close> is the loop that never ends.
\<close>

fun grow_capacity_turns :: "nat \<Rightarrow> nat \<Rightarrow> nat \<Rightarrow> nat option" where
  "grow_capacity_turns 0 new_capacity required_capacity = None"
| "grow_capacity_turns (Suc n) new_capacity required_capacity =
     (if new_capacity < required_capacity
      then grow_capacity_turns n ((new_capacity * 2) mod 2 ^ 64) required_capacity
      else Some new_capacity)"

definition grow_capacity :: "nat \<Rightarrow> nat \<Rightarrow> nat option" where
  "grow_capacity new_capacity required_capacity =
     grow_capacity_turns 66 new_capacity required_capacity"

text \<open>
  \<open>mjs_array_ensure_capacity\<close>. The result \<open>None\<close> of the array functions stands for a call
  with no defined result: the doubling loop never ends, or the call writes outside the
  element buffer. The latter happens here when the byte count
  \<open>sizeof(mjs_value_t) * new_capacity\<close> wraps, so that the buffer obtained is shorter than
  the capacity that the initialisation loop then fills.
\<close>

definition mjs_array_ensure_capacity :: "mjs_array \<Rightarrow> nat \<Rightarrow> (bool \<times> mjs_array) option" where
  "mjs_array_ensure_capacity arr required_capacity =
     (if required_capacity \<le> acapacity arr then Some (True, arr)
      else
        (case grow_capacity (acapacity arr) required_capacity of
           None \<Rightarrow> None
         | Some new_capacity \<Rightarrow>
             if sizeof_mjs_value * new_capacity \<ge> 2 ^ 64 then None
             else
               Some (True,
                     arr\<lparr>elements :=
                           elements arr
                             @ replicate (new_capacity - acapacity arr) mjs_value_undefined,
                         acapacity := new_capacity\<rparr>)))"

definition mjs_array_get :: "mjs_array option \<Rightarrow> nat \<Rightarrow> mjs_value" where
  "mjs_array_get arr index =
     (case arr of
        None \<Rightarrow> mjs_value_undefined
      | Some a \<Rightarrow> if index \<ge> alength a then mjs_value_undefined else elements a ! index)"

text \<open>
  The array functions that write return the success flag and the array as it is
  afterwards; the caller stores it back. The index is a \<open>size_t\<close>: \<open>index + 1\<close> wraps to 0
  for the largest index, the capacity is then found sufficient as it is, and the loop
  that fills the gap and the store of the element write outside the buffer.
\<close>

definition array_fill :: "mjs_value list \<Rightarrow> nat \<Rightarrow> nat \<Rightarrow> mjs_value list" where
  "array_fill es from to = fold (\<lambda>i xs. xs[i := mjs_value_undefined]) [from..<to] es"

definition mjs_array_set :: "mjs_array \<Rightarrow> nat \<Rightarrow> mjs_value \<Rightarrow> (bool \<times> mjs_array) option" where
  "mjs_array_set arr index v =
     (if index \<ge> alength arr then
        (case mjs_array_ensure_capacity arr ((index + 1) mod 2 ^ 64) of
           None \<Rightarrow> None
         | Some (ok, arr1) \<Rightarrow>
             if \<not> ok then Some (False, arr1)
             else if index \<ge> acapacity arr1 then None
             else
               (let arr2 = arr1\<lparr>elements := array_fill (elements arr1) (alength arr1) index,
                                alength := (index + 1) mod 2 ^ 64\<rparr>
                in Some (True, arr2\<lparr>elements := (elements arr2)[index := v]\<rparr>)))
      else Some (True, arr\<lparr>elements := (elements arr)[index := v]\<rparr>))"

definition mjs_array_push :: "mjs_array \<Rightarrow> mjs_value \<Rightarrow> (bool \<times> mjs_array) option" where
  "mjs_array_push arr v =
     (case mjs_array_ensure_capacity arr ((alength arr + 1) mod 2 ^ 64) of
        None \<Rightarrow> None
      | Some (ok, arr1) \<Rightarrow>
          if \<not> ok then Some (False, arr1)
          else if alength arr1 \<ge> acapacity arr1 then None
          else Some (True, arr1\<lparr>elements := (elements arr1)[alength arr1 := v],
                                alength := (alength arr1 + 1) mod 2 ^ 64\<rparr>))"

definition mjs_array_pop :: "mjs_array \<Rightarrow> mjs_value \<times> mjs_array" where
  "mjs_array_pop arr =
     (if alength arr = 0 then (mjs_value_undefined, arr)
      else
        (let n = alength arr - 1
         in (elements arr ! n,
             arr\<lparr>alength := n, elements := (elements arr)[n := mjs_value_undefined]\<rparr>)))"

definition gc_store_array :: "mjs_gc \<Rightarrow> addr option \<Rightarrow> mjs_array \<Rightarrow> mjs_gc" where
  "gc_store_array g arr a = (case arr of None \<Rightarrow> g | Some p \<Rightarrow> gc_store g p (PArray a))"


subsection \<open>Bytecode (vm.h, vm.c)\<close>

text \<open>The enumerators of \<open>mjs_opcode_t\<close>, by their values.\<close>

definition OP_NOP :: nat where "OP_NOP = 0"
definition OP_PUSH_UNDEFINED :: nat where "OP_PUSH_UNDEFINED = 1"
definition OP_PUSH_NULL :: nat where "OP_PUSH_NULL = 2"
definition OP_PUSH_TRUE :: nat where "OP_PUSH_TRUE = 3"
definition OP_PUSH_FALSE :: nat where "OP_PUSH_FALSE = 4"
definition OP_PUSH_NUMBER :: nat where "OP_PUSH_NUMBER = 5"
definition OP_PUSH_STRING :: nat where "OP_PUSH_STRING = 6"
definition OP_PUSH_BIGINT :: nat where "OP_PUSH_BIGINT = 7"
definition OP_POP :: nat where "OP_POP = 8"
definition OP_DUP :: nat where "OP_DUP = 9"
definition OP_SWAP :: nat where "OP_SWAP = 10"
definition OP_LOAD_CONST :: nat where "OP_LOAD_CONST = 11"
definition OP_LOAD_VAR :: nat where "OP_LOAD_VAR = 12"
definition OP_STORE_VAR :: nat where "OP_STORE_VAR = 13"
definition OP_LOAD_LOCAL :: nat where "OP_LOAD_LOCAL = 14"
definition OP_STORE_LOCAL :: nat where "OP_STORE_LOCAL = 15"
definition OP_LOAD_GLOBAL :: nat where "OP_LOAD_GLOBAL = 16"
definition OP_STORE_GLOBAL :: nat where "OP_STORE_GLOBAL = 17"
definition OP_DECLARE_VAR :: nat where "OP_DECLARE_VAR = 18"
definition OP_DECLARE_LET :: nat where "OP_DECLARE_LET = 19"
definition OP_DECLARE_CONST :: nat where "OP_DECLARE_CONST = 20"
definition OP_ADD :: nat where "OP_ADD = 21"
definition OP_SUB :: nat where "OP_SUB = 22"
definition OP_MUL :: nat where "OP_MUL = 23"
definition OP_DIV :: nat where "OP_DIV = 24"
definition OP_MOD :: nat where "OP_MOD = 25"
definition OP_NEG :: nat where "OP_NEG = 26"
definition OP_PLUS :: nat where "OP_PLUS = 27"
definition OP_SUBTRACT :: nat where "OP_SUBTRACT = 28"
definition OP_MULTIPLY :: nat where "OP_MULTIPLY = 29"
definition OP_DIVIDE :: nat where "OP_DIVIDE = 30"
definition OP_MODULO :: nat where "OP_MODULO = 31"
definition OP_EXPONENT :: nat where "OP_EXPONENT = 32"
definition OP_NEGATE :: nat where "OP_NEGATE = 33"
definition OP_INCREMENT :: nat where "OP_INCREMENT = 34"
definition OP_DECREMENT :: nat where "OP_DECREMENT = 35"
definition OP_EQ :: nat where "OP_EQ = 36"
definition OP_NE :: nat where "OP_NE = 37"
definition OP_EQUAL :: nat where "OP_EQUAL = 38"
definition OP_NOT_EQUAL :: nat where "OP_NOT_EQUAL = 39"
definition OP_STRICT_EQUAL :: nat where "OP_STRICT_EQUAL = 40"
definition OP_STRICT_NOT_EQUAL :: nat where "OP_STRICT_NOT_EQUAL = 41"
definition OP_LESS_THAN :: nat where "OP_LESS_THAN = 42"
definition OP_LESS_EQUAL :: nat where "OP_LESS_EQUAL = 43"
definition OP_GREATER_THAN :: nat where "OP_GREATER_THAN = 44"
definition OP_GREATER_EQUAL :: nat where "OP_GREATER_EQUAL = 45"
definition OP_LT :: nat where "OP_LT = 46"
definition OP_LE :: nat where "OP_LE = 47"
definition OP_GT :: nat where "OP_GT = 48"
definition OP_GE :: nat where "OP_GE = 49"
definition OP_AND :: nat where "OP_AND = 50"
definition OP_OR :: nat where "OP_OR = 51"
definition OP_NOT :: nat where "OP_NOT = 52"
definition OP_LOGICAL_AND :: nat where "OP_LOGICAL_AND = 53"
definition OP_LOGICAL_OR :: nat where "OP_LOGICAL_OR = 54"
definition OP_LOGICAL_NOT :: nat where "OP_LOGICAL_NOT = 55"
definition OP_NULLISH_COALESCING :: nat where "OP_NULLISH_COALESCING = 56"
definition OP_BIT_AND :: nat where "OP_BIT_AND = 57"
definition OP_BIT_OR :: nat where "OP_BIT_OR = 58"
definition OP_BIT_XOR :: nat where "OP_BIT_XOR = 59"
definition OP_BIT_NOT :: nat where "OP_BIT_NOT = 60"
definition OP_SHL :: nat where "OP_SHL = 61"
definition OP_SHR :: nat where "OP_SHR = 62"
definition OP_BITWISE_AND :: nat where "OP_BITWISE_AND = 63"
definition OP_BITWISE_OR :: nat where "OP_BITWISE_OR = 64"
definition OP_BITWISE_XOR :: nat where "OP_BITWISE_XOR = 65"
definition OP_BITWISE_NOT :: nat where "OP_BITWISE_NOT = 66"
definition OP_LEFT_SHIFT :: nat where "OP_LEFT_SHIFT = 67"
definition OP_RIGHT_SHIFT :: nat where "OP_RIGHT_SHIFT = 68"
definition OP_UNSIGNED_RIGHT_SHIFT :: nat where "OP_UNSIGNED_RIGHT_SHIFT = 69"
definition OP_NEW_OBJECT :: nat where "OP_NEW_OBJECT = 70"
definition OP_NEW_ARRAY :: nat where "OP_NEW_ARRAY = 71"
definition OP_GET_PROP :: nat where "OP_GET_PROP = 72"
definition OP_SET_PROP :: nat where "OP_SET_PROP = 73"
definition OP_GET_PROPERTY :: nat where "OP_GET_PROPERTY = 74"
definition OP_SET_PROPERTY :: nat where "OP_SET_PROPERTY = 75"
definition OP_GET_PROP_COMPUTED :: nat where "OP_GET_PROP_COMPUTED = 76"
definition OP_SET_PROP_COMPUTED :: nat where "OP_SET_PROP_COMPUTED = 77"
definition OP_DELETE_PROPERTY :: nat where "OP_DELETE_PROPERTY = 78"
definition OP_HAS_PROPERTY :: nat where "OP_HAS_PROPERTY = 79"
definition OP_GET_ELEMENT :: nat where "OP_GET_ELEMENT = 80"
definition OP_SET_ELEMENT :: nat where "OP_SET_ELEMENT = 81"
definition OP_TYPEOF :: nat where "OP_TYPEOF = 82"
definition OP_INSTANCEOF :: nat where "OP_INSTANCEOF = 83"
definition OP_ARRAY_PUSH :: nat where "OP_ARRAY_PUSH = 84"
definition OP_ARRAY_POP :: nat where "OP_ARRAY_POP = 85"
definition OP_ARRAY_GET :: nat where "OP_ARRAY_GET = 86"
definition OP_ARRAY_SET :: nat where "OP_ARRAY_SET = 87"
definition OP_ARRAY_LENGTH :: nat where "OP_ARRAY_LENGTH = 88"
definition OP_CALL :: nat where "OP_CALL = 89"
definition OP_NEW :: nat where "OP_NEW = 90"
definition OP_RETURN :: nat where "OP_RETURN = 91"
definition OP_YIELD :: nat where "OP_YIELD = 92"
definition OP_AWAIT :: nat where "OP_AWAIT = 93"
definition OP_JUMP :: nat where "OP_JUMP = 94"
definition OP_JUMP_IF_TRUE :: nat where "OP_JUMP_IF_TRUE = 95"
definition OP_JUMP_IF_FALSE :: nat where "OP_JUMP_IF_FALSE = 96"
definition OP_JUMP_IF_NULL_OR_UNDEFINED :: nat where "OP_JUMP_IF_NULL_OR_UNDEFINED = 97"
definition OP_THROW :: nat where "OP_THROW = 98"
definition OP_TRY_BEGIN :: nat where "OP_TRY_BEGIN = 99"
definition OP_TRY_END :: nat where "OP_TRY_END = 100"
definition OP_CATCH_BEGIN :: nat where "OP_CATCH_BEGIN = 101"
definition OP_CATCH_END :: nat where "OP_CATCH_END = 102"
definition OP_FINALLY_BEGIN :: nat where "OP_FINALLY_BEGIN = 103"
definition OP_FINALLY_END :: nat where "OP_FINALLY_END = 104"
definition OP_DEBUGGER :: nat where "OP_DEBUGGER = 105"
definition OP_HALT :: nat where "OP_HALT = 106"

lemmas opcode_defs =
  OP_NOP_def OP_PUSH_UNDEFINED_def OP_PUSH_NULL_def OP_PUSH_TRUE_def OP_PUSH_FALSE_def
  OP_PUSH_NUMBER_def OP_PUSH_STRING_def OP_PUSH_BIGINT_def OP_POP_def OP_DUP_def
  OP_SWAP_def OP_LOAD_CONST_def OP_LOAD_VAR_def OP_STORE_VAR_def OP_LOAD_LOCAL_def
  OP_STORE_LOCAL_def OP_LOAD_GLOBAL_def OP_STORE_GLOBAL_def OP_DECLARE_VAR_def OP_DECLARE_LET_def
  OP_DECLARE_CONST_def OP_ADD_def OP_SUB_def OP_MUL_def OP_DIV_def
  OP_MOD_def OP_NEG_def OP_PLUS_def OP_SUBTRACT_def OP_MULTIPLY_def
  OP_DIVIDE_def OP_MODULO_def OP_EXPONENT_def OP_NEGATE_def OP_INCREMENT_def
  OP_DECREMENT_def OP_EQ_def OP_NE_def OP_EQUAL_def OP_NOT_EQUAL_def
  OP_STRICT_EQUAL_def OP_STRICT_NOT_EQUAL_def OP_LESS_THAN_def OP_LESS_EQUAL_def OP_GREATER_THAN_def
  OP_GREATER_EQUAL_def OP_LT_def OP_LE_def OP_GT_def OP_GE_def
  OP_AND_def OP_OR_def OP_NOT_def OP_LOGICAL_AND_def OP_LOGICAL_OR_def
  OP_LOGICAL_NOT_def OP_NULLISH_COALESCING_def OP_BIT_AND_def OP_BIT_OR_def OP_BIT_XOR_def
  OP_BIT_NOT_def OP_SHL_def OP_SHR_def OP_BITWISE_AND_def OP_BITWISE_OR_def
  OP_BITWISE_XOR_def OP_BITWISE_NOT_def OP_LEFT_SHIFT_def OP_RIGHT_SHIFT_def OP_UNSIGNED_RIGHT_SHIFT_def
  OP_NEW_OBJECT_def OP_NEW_ARRAY_def OP_GET_PROP_def OP_SET_PROP_def OP_GET_PROPERTY_def
  OP_SET_PROPERTY_def OP_GET_PROP_COMPUTED_def OP_SET_PROP_COMPUTED_def OP_DELETE_PROPERTY_def OP_HAS_PROPERTY_def
  OP_GET_ELEMENT_def OP_SET_ELEMENT_def OP_TYPEOF_def OP_INSTANCEOF_def OP_ARRAY_PUSH_def
  OP_ARRAY_POP_def OP_ARRAY_GET_def OP_ARRAY_SET_def OP_ARRAY_LENGTH_def OP_CALL_def
  OP_NEW_def OP_RETURN_def OP_YIELD_def OP_AWAIT_def OP_JUMP_def
  OP_JUMP_IF_TRUE_def OP_JUMP_IF_FALSE_def OP_JUMP_IF_NULL_OR_UNDEFINED_def OP_THROW_def OP_TRY_BEGIN_def
  OP_TRY_END_def OP_CATCH_BEGIN_def OP_CATCH_END_def OP_FINALLY_BEGIN_def OP_FINALLY_END_def
  OP_DEBUGGER_def OP_HALT_def

definition mjs_bytecode_new :: mjs_bytecode where
  "mjs_bytecode_new =
     \<lparr>instructions = [], instruction_capacity = 64, constants = [], constant_capacity = 32,
      strings = [], string_capacity = 32\<rparr>"

definition mjs_bytecode_emit :: "mjs_bytecode \<Rightarrow> mjs_instruction \<Rightarrow> bool \<times> mjs_bytecode" where
  "mjs_bytecode_emit bc instruction =
     (let bc1 = (if length (instructions bc) \<ge> instruction_capacity bc
                 then bc\<lparr>instruction_capacity := instruction_capacity bc * 2\<rparr> else bc)
      in (True, bc1\<lparr>instructions := instructions bc1 @ [instruction]\<rparr>))"

text \<open>The index returned is the \<open>size_t\<close> count converted to \<open>uint32_t\<close>.\<close>

definition mjs_bytecode_add_constant :: "mjs_bytecode \<Rightarrow> mjs_value \<Rightarrow> 32 word \<times> mjs_bytecode" where
  "mjs_bytecode_add_constant bc v =
     (let bc1 = (if length (constants bc) \<ge> constant_capacity bc
                 then bc\<lparr>constant_capacity := constant_capacity bc * 2\<rparr> else bc)
      in (word_of_nat (length (constants bc1)), bc1\<lparr>constants := constants bc1 @ [v]\<rparr>))"

fun string_pool_find :: "mjs_string list \<Rightarrow> string \<Rightarrow> nat option" where
  "string_pool_find [] str = None"
| "string_pool_find (s # ss) str =
     (if MJS_STREQ (data s) str then Some 0
      else (case string_pool_find ss str of None \<Rightarrow> None | Some i \<Rightarrow> Some (Suc i)))"

definition mjs_bytecode_add_string :: "mjs_bytecode \<Rightarrow> string option \<Rightarrow> 32 word \<times> mjs_bytecode" where
  "mjs_bytecode_add_string bc str =
     (case str of
        None \<Rightarrow> (0, bc)
      | Some st \<Rightarrow>
          (case string_pool_find (strings bc) st of
             Some i \<Rightarrow> (word_of_nat i, bc)
           | None \<Rightarrow>
               (let bc1 = (if length (strings bc) \<ge> string_capacity bc
                           then bc\<lparr>string_capacity := string_capacity bc * 2\<rparr> else bc)
                in (word_of_nat (length (strings bc1)),
                    bc1\<lparr>strings := strings bc1 @ [\<lparr>data = c_str st, is_interned = False\<rparr>]\<rparr>))))"

definition mjs_bytecode_emit_jump :: "mjs_bytecode \<Rightarrow> nat \<Rightarrow> 32 word \<Rightarrow> nat \<times> mjs_bytecode" where
  "mjs_bytecode_emit_jump bc opc placeholder =
     (length (instructions bc),
      snd (mjs_bytecode_emit bc \<lparr>opcode = opc, operand = placeholder\<rparr>))"

definition mjs_bytecode_patch_jump :: "mjs_bytecode \<Rightarrow> nat \<Rightarrow> mjs_bytecode" where
  "mjs_bytecode_patch_jump bc jump_index =
     (if jump_index \<ge> length (instructions bc) then bc
      else bc\<lparr>instructions :=
                (instructions bc)
                  [jump_index := (instructions bc ! jump_index)
                                   \<lparr>operand := word_of_nat (length (instructions bc))\<rparr>]\<rparr>)"

definition mjs_bytecode_get_current_offset :: "mjs_bytecode \<Rightarrow> nat" where
  "mjs_bytecode_get_current_offset bc = length (instructions bc)"


subsection \<open>The virtual machine (vm.c)\<close>

datatype vm_state = VM_STATE_READY | VM_STATE_RUNNING | VM_STATE_ERROR

definition VM_STACK_SIZE :: nat where "VM_STACK_SIZE = 1024"
definition VM_CALL_STACK_SIZE :: nat where "VM_CALL_STACK_SIZE = 256"
definition VM_EXCEPTION_STACK_SIZE :: nat where "VM_EXCEPTION_STACK_SIZE = 64"

record mjs_call_frame =
  frame_bytecode :: mjs_bytecode
  pc :: nat
  locals_base :: size_t
  this_value :: mjs_value

text \<open>
  \<open>struct mjs_vm\<close>. The operand stack and the call stack are lists with the top at the
  head: \<open>stack_top\<close> is \<open>length (stack vm)\<close> and \<open>call_stack_top\<close> is
  \<open>length (call_stack vm)\<close>. The context the VM points at is kept inside it.
\<close>

record mjs_vm =
  vm_context :: mjs_context
  state :: vm_state
  stack :: "mjs_value list"
  stack_capacity :: nat
  call_stack :: "mjs_call_frame list"
  call_stack_capacity :: nat
  exception_stack_capacity :: nat
  instructions_executed :: size_t

definition mjs_vm_new :: "mjs_context \<Rightarrow> mjs_vm" where
  "mjs_vm_new ctx =
     \<lparr>vm_context = ctx, state = VM_STATE_READY, stack = [], stack_capacity = VM_STACK_SIZE,
      call_stack = [], call_stack_capacity = VM_CALL_STACK_SIZE,
      exception_stack_capacity = VM_EXCEPTION_STACK_SIZE, instructions_executed = 0\<rparr>"

definition vm_push :: "mjs_vm \<Rightarrow> mjs_value \<Rightarrow> bool \<times> mjs_vm" where
  "vm_push vm v =
     (if length (stack vm) \<ge> stack_capacity vm then (False, vm)
      else (True, vm\<lparr>stack := v # stack vm\<rparr>))"

definition vm_pop :: "mjs_vm \<Rightarrow> mjs_value \<times> mjs_vm" where
  "vm_pop vm =
     (case stack vm of
        [] \<Rightarrow> (mjs_value_undefined, vm)
      | v # rest \<Rightarrow> (v, vm\<lparr>stack := rest\<rparr>))"

definition vm_peek :: "mjs_vm \<Rightarrow> nat \<Rightarrow> mjs_value" where
  "vm_peek vm offset =
     (if length (stack vm) \<le> offset then mjs_value_undefined else stack vm ! offset)"

definition vm_drop :: "mjs_vm \<Rightarrow> nat \<Rightarrow> mjs_vm" where
  "vm_drop vm count =
     (if count > length (stack vm) then vm\<lparr>stack := []\<rparr>
      else vm\<lparr>stack := drop count (stack vm)\<rparr>)"

definition vm_push_frame :: "mjs_vm \<Rightarrow> mjs_bytecode \<Rightarrow> nat \<Rightarrow> bool \<times> mjs_vm" where
  "vm_push_frame vm bc locals_count =
     (if length (call_stack vm) \<ge> call_stack_capacity vm then (False, vm)
      else
        (True,
         vm\<lparr>call_stack :=
               \<lparr>frame_bytecode = bc, pc = 0,
                locals_base = word_of_nat (length (stack vm)) - word_of_nat locals_count,
                this_value = mjs_value_undefined\<rparr> # call_stack vm\<rparr>))"

definition vm_pop_frame :: "mjs_vm \<Rightarrow> bool \<times> mjs_vm" where
  "vm_pop_frame vm =
     (case call_stack vm of
        [] \<Rightarrow> (False, vm)
      | frame # rest \<Rightarrow> (True, vm\<lparr>call_stack := rest\<rparr>))"

definition vm_current_frame :: "mjs_vm \<Rightarrow> mjs_call_frame option" where
  "vm_current_frame vm = (case call_stack vm of [] \<Rightarrow> None | frame # rest \<Rightarrow> Some frame)"

definition vm_gc :: "mjs_vm \<Rightarrow> mjs_gc" where
  "vm_gc vm = ctx_gc (vm_context vm)"

text \<open>
  \<open>vm_add\<close>: when either operand is a string the two are converted with \<open>mjs_to_string\<close>,
  which never returns \<open>NULL\<close>, and the function returns \<open>undefined\<close>: the source has no
  concatenation there.
\<close>

definition vm_add :: "mjs_vm \<Rightarrow> mjs_value \<Rightarrow> mjs_value \<Rightarrow> mjs_value" where
  "vm_add vm a b =
     (if mjs_is_string a \<or> mjs_is_string b then
        (let str_a = mjs_to_string (vm_gc vm) a;
             str_b = mjs_to_string (vm_gc vm) b
         in if str_a = None \<or> str_b = None then mjs_value_undefined
            else mjs_value_undefined)
      else mjs_value_number (d_add (mjs_to_number (vm_gc vm) a) (mjs_to_number (vm_gc vm) b)))"

definition vm_subtract :: "mjs_vm \<Rightarrow> mjs_value \<Rightarrow> mjs_value \<Rightarrow> mjs_value" where
  "vm_subtract vm a b =
     mjs_value_number (d_sub (mjs_to_number (vm_gc vm) a) (mjs_to_number (vm_gc vm) b))"

definition vm_multiply :: "mjs_vm \<Rightarrow> mjs_value \<Rightarrow> mjs_value \<Rightarrow> mjs_value" where
  "vm_multiply vm a b =
     mjs_value_number (d_mul (mjs_to_number (vm_gc vm) a) (mjs_to_number (vm_gc vm) b))"

definition vm_divide :: "mjs_vm \<Rightarrow> mjs_value \<Rightarrow> mjs_value \<Rightarrow> mjs_value" where
  "vm_divide vm a b =
     (let num_a = mjs_to_number (vm_gc vm) a;
          num_b = mjs_to_number (vm_gc vm) b
      in if d_eq num_b (DNum 0)
         then mjs_value_number (if d_ge num_a (DNum 0) then DPosInf else DNegInf)
         else mjs_value_number (d_div num_a num_b))"

definition vm_modulo :: "mjs_vm \<Rightarrow> mjs_value \<Rightarrow> mjs_value \<Rightarrow> mjs_value" where
  "vm_modulo vm a b =
     (let num_a = mjs_to_number (vm_gc vm) a;
          num_b = mjs_to_number (vm_gc vm) b
      in if d_eq num_b (DNum 0) then mjs_value_number DNaN
         else mjs_value_number (d_fmod num_a num_b))"

definition vm_negate :: "mjs_vm \<Rightarrow> mjs_value \<Rightarrow> mjs_value" where
  "vm_negate vm a = mjs_value_number (d_neg (mjs_to_number (vm_gc vm) a))"

definition vm_unary_plus :: "mjs_vm \<Rightarrow> mjs_value \<Rightarrow> mjs_value" where
  "vm_unary_plus vm a = mjs_value_number (mjs_to_number (vm_gc vm) a)"

text \<open>
  \<open>vm_equals\<close>. In the last case the source compares \<open>mjs_get_object(a)\<close> with
  \<open>mjs_get_object(b)\<close> for objects, arrays and functions alike; \<open>mjs_get_object\<close> returns
  \<open>NULL\<close> for every value whose tag is not \<open>MJS_TAG_OBJECT\<close>.
\<close>

definition vm_equals :: "mjs_vm \<Rightarrow> mjs_value \<Rightarrow> mjs_value \<Rightarrow> bool" where
  "vm_equals vm a b =
     (if mjs_get_type a \<noteq> mjs_get_type b then False
      else
        (case mjs_get_type a of
           MJS_TYPE_UNDEFINED \<Rightarrow> True
         | MJS_TYPE_NULL \<Rightarrow> True
         | MJS_TYPE_BOOLEAN \<Rightarrow> mjs_get_boolean a = mjs_get_boolean b
         | MJS_TYPE_NUMBER \<Rightarrow> d_eq (mjs_get_number a) (mjs_get_number b)
         | MJS_TYPE_STRING \<Rightarrow>
             mjs_string_compare (gc_string (vm_gc vm) (mjs_get_string a))
                                (gc_string (vm_gc vm) (mjs_get_string b)) = 0
         | MJS_TYPE_OBJECT \<Rightarrow> mjs_get_object a = mjs_get_object b
         | MJS_TYPE_ARRAY \<Rightarrow> mjs_get_object a = mjs_get_object b
         | MJS_TYPE_FUNCTION \<Rightarrow> mjs_get_object a = mjs_get_object b
         | _ \<Rightarrow> False))"

definition vm_less_than :: "mjs_vm \<Rightarrow> mjs_value \<Rightarrow> mjs_value \<Rightarrow> bool" where
  "vm_less_than vm a b = d_lt (mjs_to_number (vm_gc vm) a) (mjs_to_number (vm_gc vm) b)"

definition vm_less_than_or_equal :: "mjs_vm \<Rightarrow> mjs_value \<Rightarrow> mjs_value \<Rightarrow> bool" where
  "vm_less_than_or_equal vm a b = d_le (mjs_to_number (vm_gc vm) a) (mjs_to_number (vm_gc vm) b)"

definition vm_greater_than :: "mjs_vm \<Rightarrow> mjs_value \<Rightarrow> mjs_value \<Rightarrow> bool" where
  "vm_greater_than vm a b = d_gt (mjs_to_number (vm_gc vm) a) (mjs_to_number (vm_gc vm) b)"

definition vm_greater_than_or_equal :: "mjs_vm \<Rightarrow> mjs_value \<Rightarrow> mjs_value \<Rightarrow> bool" where
  "vm_greater_than_or_equal vm a b =
     d_ge (mjs_to_number (vm_gc vm) a) (mjs_to_number (vm_gc vm) b)"

definition vm_typeof :: "mjs_value \<Rightarrow> string" where
  "vm_typeof v =
     (case mjs_get_type v of
        MJS_TYPE_UNDEFINED \<Rightarrow> ''undefined''
      | MJS_TYPE_NULL \<Rightarrow> ''object''
      | MJS_TYPE_BOOLEAN \<Rightarrow> ''boolean''
      | MJS_TYPE_NUMBER \<Rightarrow> ''number''
      | MJS_TYPE_STRING \<Rightarrow> ''string''
      | MJS_TYPE_FUNCTION \<Rightarrow> ''function''
      | _ \<Rightarrow> ''object'')"


text \<open>
  Helpers for the instruction cases: the writes \<open>vm->context->...\<close> and \<open>frame->pc = t\<close>,
  and the three shapes that most cases share (pop \<open>b\<close>, pop \<open>a\<close>, push a result).
\<close>

definition vm_set_gc :: "mjs_vm \<Rightarrow> mjs_gc \<Rightarrow> mjs_vm" where
  "vm_set_gc vm g = vm\<lparr>vm_context := ctx_set_gc (vm_context vm) g\<rparr>"

definition vm_set_pc :: "mjs_vm \<Rightarrow> nat \<Rightarrow> mjs_vm" where
  "vm_set_pc vm t =
     (case call_stack vm of
        [] \<Rightarrow> vm
      | frame # rest \<Rightarrow> vm\<lparr>call_stack := frame\<lparr>pc := t\<rparr> # rest\<rparr>)"

definition vm_binary ::
  "mjs_vm \<Rightarrow> (mjs_vm \<Rightarrow> mjs_value \<Rightarrow> mjs_value \<Rightarrow> mjs_value) \<Rightarrow> bool \<times> mjs_vm" where
  "vm_binary vm f =
     (let (b, vm1) = vm_pop vm;
          (a, vm2) = vm_pop vm1
      in vm_push vm2 (f vm2 a b))"

definition vm_unary :: "mjs_vm \<Rightarrow> (mjs_vm \<Rightarrow> mjs_value \<Rightarrow> mjs_value) \<Rightarrow> bool \<times> mjs_vm" where
  "vm_unary vm f = (let (a, vm1) = vm_pop vm in vm_push vm1 (f vm1 a))"

definition vm_int32 :: "mjs_vm \<Rightarrow> mjs_value \<Rightarrow> 32 word" where
  "vm_int32 vm a = d_to_int32 (mjs_to_number (vm_gc vm) a)"

text \<open>
  \<open>vm_execute_instruction\<close>: one case per \<open>case\<close> label of the switch, in the order of
  the source; every opcode without a label reaches \<open>default: return false\<close>. The result
  \<open>None\<close> stands for a call with no defined result (an array function whose capacity loop
  never ends or that writes outside the element buffer).
  The shifts are those of the two's complement machine: \<open><<\<close> drops the bits shifted out
  and \<open>>>\<close> copies the sign bit.
\<close>

definition vm_execute_instruction :: "mjs_vm \<Rightarrow> mjs_instruction \<Rightarrow> (bool \<times> mjs_vm) option" where
  "vm_execute_instruction vm instr =
     (case vm_current_frame vm of
        None \<Rightarrow> Some (False, vm)
      | Some frame \<Rightarrow>
     (let op = opcode instr;
          u32 = unat (operand instr);
          bc = frame_bytecode frame
      in
      if op = OP_NOP then Some (True, vm)
      else if op = OP_LOAD_CONST then
        (if u32 \<ge> length (constants bc) then Some (False, vm)
         else Some (vm_push vm (constants bc ! u32)))
      else if op = OP_LOAD_VAR then
        (if u32 \<ge> length (strings bc) then Some (False, vm)
         else
           (let name = data (strings bc ! u32);
                (found, v) = mjs_context_get_variable (vm_context vm) name
            in if found then Some (vm_push vm v) else Some (vm_push vm mjs_value_undefined)))
      else if op = OP_STORE_VAR then
        (if u32 \<ge> length (strings bc) then Some (False, vm)
         else
           (let name = data (strings bc ! u32);
                (v, vm1) = vm_pop vm;
                (ok, ctx1) = mjs_context_set_variable (vm_context vm1) name v
            in Some (ok, vm1\<lparr>vm_context := ctx1\<rparr>)))
      else if op = OP_POP then Some (True, snd (vm_pop vm))
      else if op = OP_DUP then Some (vm_push vm (vm_peek vm 0))
      else if op = OP_SWAP then
        (if length (stack vm) < 2 then Some (False, vm)
         else
           (let (a, vm1) = vm_pop vm;
                (b, vm2) = vm_pop vm1;
                vm3 = snd (vm_push vm2 a);
                vm4 = snd (vm_push vm3 b)
            in Some (True, vm4)))
      else if op = OP_ADD then Some (vm_binary vm vm_add)
      else if op = OP_SUB then Some (vm_binary vm vm_subtract)
      else if op = OP_MUL then Some (vm_binary vm vm_multiply)
      else if op = OP_DIV then Some (vm_binary vm vm_divide)
      else if op = OP_MOD then Some (vm_binary vm vm_modulo)
      else if op = OP_NEG then Some (vm_unary vm vm_negate)
      else if op = OP_PLUS then Some (vm_unary vm vm_unary_plus)
      else if op = OP_EQ then
        Some (vm_binary vm (\<lambda>m a b. mjs_value_boolean (vm_equals m a b)))
      else if op = OP_NE then
        Some (vm_binary vm (\<lambda>m a b. mjs_value_boolean (\<not> vm_equals m a b)))
      else if op = OP_LT then
        Some (vm_binary vm (\<lambda>m a b. mjs_value_boolean (vm_less_than m a b)))
      else if op = OP_LE then
        Some (vm_binary vm (\<lambda>m a b. mjs_value_boolean (vm_less_than_or_equal m a b)))
      else if op = OP_GT then
        Some (vm_binary vm (\<lambda>m a b. mjs_value_boolean (vm_greater_than m a b)))
      else if op = OP_GE then
        Some (vm_binary vm (\<lambda>m a b. mjs_value_boolean (vm_greater_than_or_equal m a b)))
      else if op = OP_AND then
        Some (vm_binary vm
                (\<lambda>m a b. mjs_value_boolean (mjs_to_boolean (vm_gc m) a \<and> mjs_to_boolean (vm_gc m) b)))
      else if op = OP_OR then
        Some (vm_binary vm
                (\<lambda>m a b. mjs_value_boolean (mjs_to_boolean (vm_gc m) a \<or> mjs_to_boolean (vm_gc m) b)))
      else if op = OP_NOT then
        Some (vm_unary vm (\<lambda>m a. mjs_value_boolean (\<not> mjs_to_boolean (vm_gc m) a)))
      else if op = OP_BIT_AND then
        Some (vm_binary vm
                (\<lambda>m a b. mjs_value_number (d_of_int32 (vm_int32 m a AND vm_int32 m b))))
      else if op = OP_BIT_OR then
        Some (vm_binary vm
                (\<lambda>m a b. mjs_value_number (d_of_int32 (vm_int32 m a OR vm_int32 m b))))
      else if op = OP_BIT_XOR then
        Some (vm_binary vm
                (\<lambda>m a b. mjs_value_number (d_of_int32 (vm_int32 m a XOR vm_int32 m b))))
      else if op = OP_BIT_NOT then
        Some (vm_unary vm (\<lambda>m a. mjs_value_number (d_of_int32 (NOT (vm_int32 m a)))))
      else if op = OP_SHL then
        Some (vm_binary vm
                (\<lambda>m a b. mjs_value_number
                            (d_of_int32 (push_bit (unat (vm_int32 m b AND 0x1F)) (vm_int32 m a)))))
      else if op = OP_SHR then
        Some (vm_binary vm
                (\<lambda>m a b. mjs_value_number
                            (d_of_int32
                               (signed_drop_bit (unat (vm_int32 m b AND 0x1F)) (vm_int32 m a)))))
      else if op = OP_NEW_OBJECT then
        (case mjs_object_new (vm_context vm) of
           (None, ctx1) \<Rightarrow> Some (False, vm\<lparr>vm_context := ctx1\<rparr>)
         | (Some obj, ctx1) \<Rightarrow>
             Some (vm_push (vm\<lparr>vm_context := ctx1\<rparr>) (mjs_value_object (Some obj))))
      else if op = OP_NEW_ARRAY then
        (case mjs_array_new (vm_context vm) u32 of
           (None, ctx1) \<Rightarrow> Some (False, vm\<lparr>vm_context := ctx1\<rparr>)
         | (Some arr, ctx1) \<Rightarrow>
             Some (vm_push (vm\<lparr>vm_context := ctx1\<rparr>) (mjs_value_array (Some arr))))
      else if op = OP_GET_PROP then
        (if u32 \<ge> length (strings bc) then Some (False, vm)
         else
           (let prop = data (strings bc ! u32);
                (obj, vm1) = vm_pop vm
            in if \<not> mjs_is_object obj then Some (vm_push vm1 mjs_value_undefined)
               else Some (vm_push vm1
                            (mjs_object_get_property_value (vm_gc vm1) (mjs_get_object obj)
                               (Some prop)))))
      else if op = OP_SET_PROP then
        (if u32 \<ge> length (strings bc) then Some (False, vm)
         else
           (let prop = data (strings bc ! u32);
                (v, vm1) = vm_pop vm;
                (obj, vm2) = vm_pop vm1
            in if \<not> mjs_is_object obj then Some (False, vm2)
               else Some (True,
                          vm_set_gc vm2
                            (mjs_object_set_property (vm_gc vm2) (mjs_get_object obj)
                               (Some prop) v))))
      else if op = OP_GET_PROP_COMPUTED then
        (let (prop, vm1) = vm_pop vm;
             (obj, vm2) = vm_pop vm1
         in if \<not> mjs_is_object obj then Some (vm_push vm2 mjs_value_undefined)
            else
              (case mjs_to_string (vm_gc vm2) prop of
                 None \<Rightarrow> Some (False, vm2)
               | Some prop_str \<Rightarrow>
                   Some (vm_push vm2
                           (mjs_object_get_property_value (vm_gc vm2) (mjs_get_object obj)
                              (Some prop_str)))))
      else if op = OP_SET_PROP_COMPUTED then
        (let (v, vm1) = vm_pop vm;
             (prop, vm2) = vm_pop vm1;
             (obj, vm3) = vm_pop vm2
         in if \<not> mjs_is_object obj then Some (False, vm3)
            else
              (case mjs_to_string (vm_gc vm3) prop of
                 None \<Rightarrow> Some (False, vm3)
               | Some prop_str \<Rightarrow>
                   Some (True,
                         vm_set_gc vm3
                           (mjs_object_set_property (vm_gc vm3) (mjs_get_object obj)
                              (Some prop_str) v))))
      else if op = OP_ARRAY_PUSH then
        (let (v, vm1) = vm_pop vm;
             arr = vm_peek vm1 0
         in if \<not> mjs_is_array arr then Some (False, vm1)
            else
              (case gc_array (vm_gc vm1) (mjs_get_array arr) of
                 None \<Rightarrow> Some (False, vm1)
               | Some a \<Rightarrow>
                   (case mjs_array_push a v of
                      None \<Rightarrow> None
                    | Some (ok, a1) \<Rightarrow>
                        Some (ok, vm_set_gc vm1 (gc_store_array (vm_gc vm1) (mjs_get_array arr) a1)))))
      else if op = OP_ARRAY_POP then
        (let (arr, vm1) = vm_pop vm
         in if \<not> mjs_is_array arr then Some (vm_push vm1 mjs_value_undefined)
            else
              (case gc_array (vm_gc vm1) (mjs_get_array arr) of
                 None \<Rightarrow> Some (vm_push vm1 mjs_value_undefined)
               | Some a \<Rightarrow>
                   (let (res, a1) = mjs_array_pop a
                    in Some (vm_push
                               (vm_set_gc vm1 (gc_store_array (vm_gc vm1) (mjs_get_array arr) a1))
                               res))))
      else if op = OP_ARRAY_GET then
        (let (index, vm1) = vm_pop vm;
             (arr, vm2) = vm_pop vm1
         in if \<not> mjs_is_array arr then Some (vm_push vm2 mjs_value_undefined)
            else
              (let idx = d_to_size_t (mjs_to_number (vm_gc vm2) index)
               in Some (vm_push vm2
                          (mjs_array_get (gc_array (vm_gc vm2) (mjs_get_array arr)) idx))))
      else if op = OP_ARRAY_SET then
        (let (v, vm1) = vm_pop vm;
             (index, vm2) = vm_pop vm1;
             (arr, vm3) = vm_pop vm2
         in if \<not> mjs_is_array arr then Some (False, vm3)
            else
              (let idx = d_to_size_t (mjs_to_number (vm_gc vm3) index)
               in case gc_array (vm_gc vm3) (mjs_get_array arr) of
                    None \<Rightarrow> Some (False, vm3)
                  | Some a \<Rightarrow>
                      (case mjs_array_set a idx v of
                         None \<Rightarrow> None
                       | Some (ok, a1) \<Rightarrow>
                           Some (ok,
                                 vm_set_gc vm3
                                   (gc_store_array (vm_gc vm3) (mjs_get_array arr) a1)))))
      else if op = OP_CALL then
        (let arg_count = u32;
             func = vm_peek vm arg_count
         in if \<not> mjs_is_function func then Some (False, vm)
            else Some (vm_push (vm_drop vm (arg_count + 1)) mjs_value_undefined))
      else if op = OP_RETURN then
        (let (return_value, vm1) = vm_pop vm;
             (ok, vm2) = vm_pop_frame vm1
         in if \<not> ok then Some (False, vm2) else Some (vm_push vm2 return_value))
      else if op = OP_JUMP then Some (True, vm_set_pc vm u32)
      else if op = OP_JUMP_IF_TRUE then
        (let (condition, vm1) = vm_pop vm
         in if mjs_to_boolean (vm_gc vm1) condition then Some (True, vm_set_pc vm1 u32)
            else Some (True, vm1))
      else if op = OP_JUMP_IF_FALSE then
        (let (condition, vm1) = vm_pop vm
         in if \<not> mjs_to_boolean (vm_gc vm1) condition then Some (True, vm_set_pc vm1 u32)
            else Some (True, vm1))
      else if op = OP_TYPEOF then
        (let (v, vm1) = vm_pop vm
         in case mjs_string_new (vm_context vm1) (vm_typeof v) of
              (None, ctx1) \<Rightarrow> Some (False, vm1\<lparr>vm_context := ctx1\<rparr>)
            | (Some str, ctx1) \<Rightarrow>
                Some (vm_push (vm1\<lparr>vm_context := ctx1\<rparr>) (mjs_value_string (Some str))))
      else Some (False, vm)))"

text \<open>
  The dispatch loop of \<open>mjs_vm_execute\<close>. A program can loop for ever, so the loop takes
  a bound on the number of turns: \<open>None\<close> means the bound was reached, or an instruction
  had no defined result. \<open>Inl vm\<close> is the \<open>return MJS_ERROR\<close> inside the loop, \<open>Inr vm\<close> the exit
  of the loop.
\<close>

fun vm_dispatch_loop :: "nat \<Rightarrow> mjs_vm \<Rightarrow> (mjs_vm + mjs_vm) option" where
  "vm_dispatch_loop 0 vm = None"
| "vm_dispatch_loop (Suc n) vm =
     (if state vm = VM_STATE_RUNNING \<and> length (call_stack vm) > 0 then
        (case vm_current_frame vm of
           None \<Rightarrow> vm_dispatch_loop n (snd (vm_pop_frame vm))
         | Some frame \<Rightarrow>
             if pc frame \<ge> length (instructions (frame_bytecode frame))
             then vm_dispatch_loop n (snd (vm_pop_frame vm))
             else
               (let instr = instructions (frame_bytecode frame) ! pc frame;
                    vm1 = vm_set_pc vm (pc frame + 1);
                    vm2 = vm1\<lparr>instructions_executed := instructions_executed vm1 + 1\<rparr>
                in case vm_execute_instruction vm2 instr of
                     None \<Rightarrow> None
                   | Some (False, vm3) \<Rightarrow> Some (Inl (vm3\<lparr>state := VM_STATE_ERROR\<rparr>))
                   | Some (True, vm3) \<Rightarrow> vm_dispatch_loop n vm3))
      else Some (Inr vm))"

text \<open>
  \<open>mjs_vm_execute\<close> with a bound on the turns of its loop: the result code, the value
  stored through \<open>result\<close> (nothing on an error), and the VM afterwards.
\<close>

definition mjs_vm_execute ::
  "nat \<Rightarrow> mjs_vm \<Rightarrow> mjs_bytecode \<Rightarrow> (mjs_result \<times> mjs_value option \<times> mjs_vm) option" where
  "mjs_vm_execute n vm bc =
     (case vm_push_frame vm bc 0 of
        (False, vm1) \<Rightarrow> Some (MJS_ERROR, None, vm1)
      | (True, vm1) \<Rightarrow>
          (case vm_dispatch_loop n (vm1\<lparr>state := VM_STATE_RUNNING\<rparr>) of
             None \<Rightarrow> None
           | Some (Inl vm2) \<Rightarrow> Some (MJS_ERROR, None, vm2)
           | Some (Inr vm2) \<Rightarrow>
               (let vm3 = vm2\<lparr>state := VM_STATE_READY\<rparr>
                in Some (MJS_OK,
                         Some (if length (stack vm3) > 0 then vm_peek vm3 0
                               else mjs_value_undefined),
                         vm3))))"

text \<open>Creating a runtime and a context (runtime.c).\<close>

definition mjs_new_runtime :: mjs_runtime where
  "mjs_new_runtime =
     \<lparr>gc = mjs_gc_new, string_table = [], memory_limit = 64 * 1024 * 1024, memory_usage = 0\<rparr>"

definition mjs_object :: "mjs_context \<Rightarrow> mjs_value \<times> mjs_context" where
  "mjs_object ctx =
     (case mjs_object_new ctx of
        (None, ctx1) \<Rightarrow> (mjs_undefined, ctx1)
      | (Some obj, ctx1) \<Rightarrow> (VObject (Some obj), ctx1))"

definition mjs_new_context :: "mjs_runtime \<Rightarrow> mjs_context" where
  "mjs_new_context rt =
     (let ctx = \<lparr>runtime = rt, global_object = VUndefined, error_value = VUndefined,
                 error_message = None, has_error = False\<rparr>;
          (global, ctx1) = mjs_object ctx
      in ctx1\<lparr>global_object := global, error_value := mjs_undefined, error_message := None,
              has_error := False\<rparr>)"


subsection \<open>The compiler (parser.h, lexer.h, compiler.c)\<close>

text \<open>The enumerators of \<open>mjs_token_type_t\<close> that the compiler looks at, by their values.\<close>

definition TOKEN_KEYWORD_TYPEOF :: nat where "TOKEN_KEYWORD_TYPEOF = 41"
definition TOKEN_KEYWORD_VOID :: nat where "TOKEN_KEYWORD_VOID = 43"
definition TOKEN_PLUS :: nat where "TOKEN_PLUS = 47"
definition TOKEN_MINUS :: nat where "TOKEN_MINUS = 48"
definition TOKEN_MULTIPLY :: nat where "TOKEN_MULTIPLY = 49"
definition TOKEN_DIVIDE :: nat where "TOKEN_DIVIDE = 50"
definition TOKEN_MODULO :: nat where "TOKEN_MODULO = 51"
definition TOKEN_EQUAL :: nat where "TOKEN_EQUAL = 62"
definition TOKEN_NOT_EQUAL :: nat where "TOKEN_NOT_EQUAL = 63"
definition TOKEN_LESS_THAN :: nat where "TOKEN_LESS_THAN = 66"
definition TOKEN_LESS_EQUAL :: nat where "TOKEN_LESS_EQUAL = 67"
definition TOKEN_GREATER_THAN :: nat where "TOKEN_GREATER_THAN = 68"
definition TOKEN_GREATER_EQUAL :: nat where "TOKEN_GREATER_EQUAL = 69"
definition TOKEN_LOGICAL_AND :: nat where "TOKEN_LOGICAL_AND = 70"
definition TOKEN_LOGICAL_OR :: nat where "TOKEN_LOGICAL_OR = 71"
definition TOKEN_LOGICAL_NOT :: nat where "TOKEN_LOGICAL_NOT = 72"
definition TOKEN_BITWISE_AND :: nat where "TOKEN_BITWISE_AND = 74"
definition TOKEN_BITWISE_OR :: nat where "TOKEN_BITWISE_OR = 75"
definition TOKEN_BITWISE_XOR :: nat where "TOKEN_BITWISE_XOR = 76"
definition TOKEN_BITWISE_NOT :: nat where "TOKEN_BITWISE_NOT = 77"
definition TOKEN_LEFT_SHIFT :: nat where "TOKEN_LEFT_SHIFT = 78"
definition TOKEN_RIGHT_SHIFT :: nat where "TOKEN_RIGHT_SHIFT = 79"

lemmas token_defs =
  TOKEN_KEYWORD_TYPEOF_def TOKEN_KEYWORD_VOID_def TOKEN_PLUS_def TOKEN_MINUS_def
  TOKEN_MULTIPLY_def TOKEN_DIVIDE_def TOKEN_MODULO_def TOKEN_EQUAL_def TOKEN_NOT_EQUAL_def
  TOKEN_LESS_THAN_def TOKEN_LESS_EQUAL_def TOKEN_GREATER_THAN_def TOKEN_GREATER_EQUAL_def
  TOKEN_LOGICAL_AND_def TOKEN_LOGICAL_OR_def TOKEN_LOGICAL_NOT_def TOKEN_BITWISE_AND_def
  TOKEN_BITWISE_OR_def TOKEN_BITWISE_XOR_def TOKEN_BITWISE_NOT_def TOKEN_LEFT_SHIFT_def
  TOKEN_RIGHT_SHIFT_def

text \<open>
  The syntax tree. A constructor is a node type together with the members of the union
  that the compiler reads for that type; \<open>AST_OTHER\<close> is a node of any other type. A child
  pointer is an option; an array of children with its count is a list. Where the compiler
  dereferences a child without a check (the target of an assignment, the property of a
  member expression, the identifier of a declarator, the string of a string literal) the
  tree holds the child itself.
\<close>

datatype mjs_ast_node =
    AST_LITERAL_NUMBER double
  | AST_LITERAL_STRING mjs_string
  | AST_LITERAL_BOOLEAN bool
  | AST_LITERAL_NULL
  | AST_LITERAL_UNDEFINED
  | AST_IDENTIFIER "string option"
  | AST_BINARY_EXPRESSION nat "mjs_ast_node option" "mjs_ast_node option"
  | AST_UNARY_EXPRESSION nat "mjs_ast_node option" bool
  | AST_ASSIGNMENT_EXPRESSION mjs_ast_node "mjs_ast_node option"
  | AST_CALL_EXPRESSION "mjs_ast_node option" "mjs_ast_node option list"
  | AST_MEMBER_EXPRESSION "mjs_ast_node option" mjs_ast_node bool
  | AST_ARRAY_EXPRESSION "mjs_ast_node option list"
  | AST_OBJECT_EXPRESSION
  | AST_FUNCTION_EXPRESSION
  | AST_EXPRESSION_STATEMENT "mjs_ast_node option"
  | AST_BLOCK_STATEMENT "mjs_ast_node option list"
  | AST_VARIABLE_DECLARATION "(string option \<times> mjs_ast_node option) list"
  | AST_FUNCTION_DECLARATION "string option"
  | AST_IF_STATEMENT "mjs_ast_node option" "mjs_ast_node option" "mjs_ast_node option"
  | AST_WHILE_STATEMENT "mjs_ast_node option" "mjs_ast_node option"
  | AST_RETURN_STATEMENT "mjs_ast_node option"
  | AST_BREAK_STATEMENT
  | AST_CONTINUE_STATEMENT
  | AST_PROGRAM "mjs_ast_node option list"
  | AST_OTHER nat


text \<open>\<open>mjs_compiler_t\<close>; its context pointer is never read.\<close>

record mjs_compiler =
  c_bytecode :: mjs_bytecode
  current_scope_depth :: nat
  c_has_error :: bool
  c_error_message :: string

definition compiler_error :: "mjs_compiler \<Rightarrow> string \<Rightarrow> mjs_compiler" where
  "compiler_error c message =
     (if c_has_error c then c
      else c\<lparr>c_has_error := True, c_error_message := ''Compilation error: '' @ message\<rparr>)"

definition emit_instruction :: "mjs_compiler \<Rightarrow> nat \<Rightarrow> 32 word \<Rightarrow> bool \<times> mjs_compiler" where
  "emit_instruction c opc oper =
     (let (ok, bc) = mjs_bytecode_emit (c_bytecode c) \<lparr>opcode = opc, operand = oper\<rparr>
      in (ok, c\<lparr>c_bytecode := bc\<rparr>))"

definition add_constant :: "mjs_compiler \<Rightarrow> mjs_value \<Rightarrow> 32 word \<times> mjs_compiler" where
  "add_constant c v =
     (let (i, bc) = mjs_bytecode_add_constant (c_bytecode c) v in (i, c\<lparr>c_bytecode := bc\<rparr>))"

definition add_string :: "mjs_compiler \<Rightarrow> string option \<Rightarrow> 32 word \<times> mjs_compiler" where
  "add_string c str =
     (case str of
        None \<Rightarrow> (0, c)
      | Some _ \<Rightarrow>
          (let (i, bc) = mjs_bytecode_add_string (c_bytecode c) str in (i, c\<lparr>c_bytecode := bc\<rparr>)))"

definition compile_literal :: "mjs_compiler \<Rightarrow> mjs_ast_node \<Rightarrow> bool \<times> mjs_compiler" where
  "compile_literal c node =
     (case node of
        AST_LITERAL_NUMBER n \<Rightarrow>
          (let (i, c1) = add_constant c (mjs_value_number n) in emit_instruction c1 OP_LOAD_CONST i)
      | AST_LITERAL_STRING s \<Rightarrow>
          (let (i, c1) = add_string c (Some (data s)) in emit_instruction c1 OP_LOAD_CONST i)
      | AST_LITERAL_BOOLEAN b \<Rightarrow>
          emit_instruction c (if b then OP_PUSH_TRUE else OP_PUSH_FALSE) 0
      | AST_LITERAL_NULL \<Rightarrow> emit_instruction c OP_PUSH_NULL 0
      | AST_LITERAL_UNDEFINED \<Rightarrow> emit_instruction c OP_PUSH_UNDEFINED 0
      | _ \<Rightarrow> (False, compiler_error c ''Unknown literal type''))"

definition compile_identifier :: "mjs_compiler \<Rightarrow> mjs_ast_node \<Rightarrow> bool \<times> mjs_compiler" where
  "compile_identifier c node =
     (case node of
        AST_IDENTIFIER name \<Rightarrow>
          (case name of
             None \<Rightarrow> (False, c)
           | Some _ \<Rightarrow>
               (let (string_index, c1) = add_string c name
                in emit_instruction c1 OP_LOAD_VAR string_index))
      | _ \<Rightarrow> (False, c))"

definition compile_binary_operator :: "mjs_compiler \<Rightarrow> nat \<Rightarrow> bool \<times> mjs_compiler" where
  "compile_binary_operator c op =
     (if op = TOKEN_PLUS then emit_instruction c OP_ADD 0
      else if op = TOKEN_MINUS then emit_instruction c OP_SUB 0
      else if op = TOKEN_MULTIPLY then emit_instruction c OP_MUL 0
      else if op = TOKEN_DIVIDE then emit_instruction c OP_DIV 0
      else if op = TOKEN_MODULO then emit_instruction c OP_MOD 0
      else if op = TOKEN_EQUAL then emit_instruction c OP_EQ 0
      else if op = TOKEN_NOT_EQUAL then emit_instruction c OP_NE 0
      else if op = TOKEN_LESS_THAN then emit_instruction c OP_LT 0
      else if op = TOKEN_LESS_EQUAL then emit_instruction c OP_LE 0
      else if op = TOKEN_GREATER_THAN then emit_instruction c OP_GT 0
      else if op = TOKEN_GREATER_EQUAL then emit_instruction c OP_GE 0
      else if op = TOKEN_LOGICAL_AND then emit_instruction c OP_AND 0
      else if op = TOKEN_LOGICAL_OR then emit_instruction c OP_OR 0
      else if op = TOKEN_BITWISE_AND then emit_instruction c OP_BIT_AND 0
      else if op = TOKEN_BITWISE_OR then emit_instruction c OP_BIT_OR 0
      else if op = TOKEN_BITWISE_XOR then emit_instruction c OP_BIT_XOR 0
      else if op = TOKEN_LEFT_SHIFT then emit_instruction c OP_SHL 0
      else if op = TOKEN_RIGHT_SHIFT then emit_instruction c OP_SHR 0
      else (False, compiler_error c ''Unknown binary operator''))"

definition compile_unary_operator :: "mjs_compiler \<Rightarrow> nat \<Rightarrow> bool \<times> mjs_compiler" where
  "compile_unary_operator c op =
     (if op = TOKEN_PLUS then emit_instruction c OP_PLUS 0
      else if op = TOKEN_MINUS then emit_instruction c OP_NEG 0
      else if op = TOKEN_LOGICAL_NOT then emit_instruction c OP_NOT 0
      else if op = TOKEN_BITWISE_NOT then emit_instruction c OP_BIT_NOT 0
      else if op = TOKEN_KEYWORD_TYPEOF then emit_instruction c OP_TYPEOF 0
      else if op = TOKEN_KEYWORD_VOID then
        (let c1 = snd (emit_instruction c OP_POP 0);
             (undef_index, c2) = add_constant c1 mjs_value_undefined
         in emit_instruction c2 OP_LOAD_CONST undef_index)
      else (False, compiler_error c ''Unknown unary operator''))"

definition compile_function_declaration ::
  "mjs_compiler \<Rightarrow> mjs_ast_node \<Rightarrow> bool \<times> mjs_compiler" where
  "compile_function_declaration c node =
     (case node of
        AST_FUNCTION_DECLARATION name \<Rightarrow>
          (let (name_index, c1) = add_string c name in emit_instruction c1 OP_PUSH_UNDEFINED 0)
      | _ \<Rightarrow> (False, c))"

text \<open>
  \<open>compile_expression\<close> and \<open>compile_statement\<close> with the functions they dispatch to
  (\<open>compile_binary_expression\<close>, \<open>compile_unary_expression\<close>, \<open>compile_assignment_expression\<close>,
  \<open>compile_call_expression\<close>, \<open>compile_member_expression\<close>, \<open>compile_block_statement\<close>,
  \<open>compile_variable_declaration\<close>, \<open>compile_if_statement\<close>, \<open>compile_while_statement\<close>,
  \<open>compile_return_statement\<close>) written out in the case of their node type. The loops over
  child arrays are the list functions.
\<close>

fun compile_expression :: "mjs_compiler \<Rightarrow> mjs_ast_node option \<Rightarrow> bool \<times> mjs_compiler"
and compile_statement :: "mjs_compiler \<Rightarrow> mjs_ast_node option \<Rightarrow> bool \<times> mjs_compiler"
and compile_elements :: "mjs_compiler \<Rightarrow> mjs_ast_node option list \<Rightarrow> bool \<times> mjs_compiler"
and compile_arguments :: "mjs_compiler \<Rightarrow> mjs_ast_node option list \<Rightarrow> bool \<times> mjs_compiler"
and compile_statements :: "mjs_compiler \<Rightarrow> mjs_ast_node option list \<Rightarrow> bool \<times> mjs_compiler"
and compile_declarations ::
  "mjs_compiler \<Rightarrow> (string option \<times> mjs_ast_node option) list \<Rightarrow> bool \<times> mjs_compiler"
where
  "compile_expression c None = (False, c)"
| "compile_expression c (Some (AST_LITERAL_NUMBER n)) = compile_literal c (AST_LITERAL_NUMBER n)"
| "compile_expression c (Some (AST_LITERAL_STRING s)) = compile_literal c (AST_LITERAL_STRING s)"
| "compile_expression c (Some (AST_LITERAL_BOOLEAN b)) = compile_literal c (AST_LITERAL_BOOLEAN b)"
| "compile_expression c (Some AST_LITERAL_NULL) = compile_literal c AST_LITERAL_NULL"
| "compile_expression c (Some AST_LITERAL_UNDEFINED) = compile_literal c AST_LITERAL_UNDEFINED"
| "compile_expression c (Some (AST_IDENTIFIER name)) = compile_identifier c (AST_IDENTIFIER name)"
| "compile_expression c (Some (AST_BINARY_EXPRESSION op left right)) =
     (case compile_expression c left of
        (False, c1) \<Rightarrow> (False, c1)
      | (True, c1) \<Rightarrow>
          (case compile_expression c1 right of
             (False, c2) \<Rightarrow> (False, c2)
           | (True, c2) \<Rightarrow> compile_binary_operator c2 op))"
| "compile_expression c (Some (AST_UNARY_EXPRESSION op argument prefix)) =
     (if prefix then
        (case compile_expression c argument of
           (False, c1) \<Rightarrow> (False, c1)
         | (True, c1) \<Rightarrow> compile_unary_operator c1 op)
      else (False, compiler_error c ''Postfix operators not yet implemented''))"
| "compile_expression c (Some (AST_ASSIGNMENT_EXPRESSION left right)) =
     (case compile_expression c right of
        (False, c1) \<Rightarrow> (False, c1)
      | (True, c1) \<Rightarrow>
          (case left of
             AST_IDENTIFIER name \<Rightarrow>
               (let (string_index, c2) = add_string c1 name
                in emit_instruction c2 OP_STORE_VAR string_index)
           | AST_MEMBER_EXPRESSION object property computed \<Rightarrow>
               (case compile_expression c1 object of
                  (False, c2) \<Rightarrow> (False, c2)
                | (True, c2) \<Rightarrow>
                    if computed then
                      (case compile_expression c2 (Some property) of
                         (False, c3) \<Rightarrow> (False, c3)
                       | (True, c3) \<Rightarrow> emit_instruction c3 OP_SET_PROP_COMPUTED 0)
                    else
                      (case property of
                         AST_IDENTIFIER pname \<Rightarrow>
                           (let (prop_index, c3) = add_string c2 pname
                            in emit_instruction c3 OP_SET_PROP prop_index)
                       | _ \<Rightarrow> (False, compiler_error c2 ''Invalid assignment target'')))
           | _ \<Rightarrow> (False, compiler_error c1 ''Invalid assignment target'')))"
| "compile_expression c (Some (AST_CALL_EXPRESSION callee arguments)) =
     (case compile_expression c callee of
        (False, c1) \<Rightarrow> (False, c1)
      | (True, c1) \<Rightarrow>
          (case compile_arguments c1 arguments of
             (False, c2) \<Rightarrow> (False, c2)
           | (True, c2) \<Rightarrow> emit_instruction c2 OP_CALL (word_of_nat (length arguments))))"
| "compile_expression c (Some (AST_MEMBER_EXPRESSION object property computed)) =
     (case compile_expression c object of
        (False, c1) \<Rightarrow> (False, c1)
      | (True, c1) \<Rightarrow>
          if computed then
            (case compile_expression c1 (Some property) of
               (False, c2) \<Rightarrow> (False, c2)
             | (True, c2) \<Rightarrow> emit_instruction c2 OP_GET_PROP_COMPUTED 0)
          else
            (case property of
               AST_IDENTIFIER pname \<Rightarrow>
                 (let (prop_index, c2) = add_string c1 pname
                  in emit_instruction c2 OP_GET_PROP prop_index)
             | _ \<Rightarrow> (False, compiler_error c1 ''Invalid member expression'')))"
| "compile_expression c (Some (AST_ARRAY_EXPRESSION elems)) =
     compile_elements (snd (emit_instruction c OP_NEW_ARRAY 0)) elems"
| "compile_expression c (Some AST_OBJECT_EXPRESSION) =
     (True, snd (emit_instruction c OP_NEW_OBJECT 0))"
| "compile_expression c (Some AST_FUNCTION_EXPRESSION) =
     (False, compiler_error c ''Function expressions not yet implemented'')"
| "compile_expression c (Some _) = (False, compiler_error c ''Unknown expression type'')"

| "compile_elements c [] = (True, c)"
| "compile_elements c (e # es) =
     (case compile_expression c e of
        (False, c1) \<Rightarrow> (False, c1)
      | (True, c1) \<Rightarrow> compile_elements (snd (emit_instruction c1 OP_ARRAY_PUSH 0)) es)"

| "compile_arguments c [] = (True, c)"
| "compile_arguments c (a # as) =
     (case compile_expression c a of
        (False, c1) \<Rightarrow> (False, c1)
      | (True, c1) \<Rightarrow> compile_arguments c1 as)"

| "compile_statement c None = (False, c)"
| "compile_statement c (Some (AST_PROGRAM body)) = compile_statements c body"
| "compile_statement c (Some (AST_EXPRESSION_STATEMENT expression)) =
     (case compile_expression c expression of
        (False, c1) \<Rightarrow> (False, c1)
      | (True, c1) \<Rightarrow> (True, snd (emit_instruction c1 OP_POP 0)))"
| "compile_statement c (Some (AST_BLOCK_STATEMENT stmts)) =
     (case compile_statements (c\<lparr>current_scope_depth := current_scope_depth c + 1\<rparr>) stmts of
        (False, c1) \<Rightarrow> (False, c1)
      | (True, c1) \<Rightarrow> (True, c1\<lparr>current_scope_depth := current_scope_depth c1 - 1\<rparr>))"
| "compile_statement c (Some (AST_VARIABLE_DECLARATION declarations)) =
     compile_declarations c declarations"
| "compile_statement c (Some (AST_FUNCTION_DECLARATION name)) =
     compile_function_declaration c (AST_FUNCTION_DECLARATION name)"
| "compile_statement c (Some (AST_IF_STATEMENT test consequent alternate)) =
     (case compile_expression c test of
        (False, c1) \<Rightarrow> (False, c1)
      | (True, c1) \<Rightarrow>
          (let (else_jump, bc2) = mjs_bytecode_emit_jump (c_bytecode c1) OP_JUMP_IF_FALSE 0;
               c2 = c1\<lparr>c_bytecode := bc2\<rparr>
           in case compile_statement c2 consequent of
                (False, c3) \<Rightarrow> (False, c3)
              | (True, c3) \<Rightarrow>
                  (case alternate of
                     Some _ \<Rightarrow>
                       (let (end_jump, bc4) = mjs_bytecode_emit_jump (c_bytecode c3) OP_JUMP 0;
                            c4 = c3\<lparr>c_bytecode := mjs_bytecode_patch_jump bc4 else_jump\<rparr>
                        in case compile_statement c4 alternate of
                             (False, c5) \<Rightarrow> (False, c5)
                           | (True, c5) \<Rightarrow>
                               (True,
                                c5\<lparr>c_bytecode := mjs_bytecode_patch_jump (c_bytecode c5) end_jump\<rparr>))
                   | None \<Rightarrow>
                       (True, c3\<lparr>c_bytecode := mjs_bytecode_patch_jump (c_bytecode c3) else_jump\<rparr>))))"
| "compile_statement c (Some (AST_WHILE_STATEMENT test body)) =
     (let loop_start = mjs_bytecode_get_current_offset (c_bytecode c)
      in case compile_expression c test of
           (False, c1) \<Rightarrow> (False, c1)
         | (True, c1) \<Rightarrow>
             (let (exit_jump, bc2) = mjs_bytecode_emit_jump (c_bytecode c1) OP_JUMP_IF_FALSE 0;
                  c2 = c1\<lparr>c_bytecode := bc2\<rparr>
              in case compile_statement c2 body of
                   (False, c3) \<Rightarrow> (False, c3)
                 | (True, c3) \<Rightarrow>
                     (let c4 = snd (emit_instruction c3 OP_JUMP (word_of_nat loop_start))
                      in (True,
                          c4\<lparr>c_bytecode := mjs_bytecode_patch_jump (c_bytecode c4) exit_jump\<rparr>))))"
| "compile_statement c (Some (AST_RETURN_STATEMENT argument)) =
     (case argument of
        Some _ \<Rightarrow>
          (case compile_expression c argument of
             (False, c1) \<Rightarrow> (False, c1)
           | (True, c1) \<Rightarrow> emit_instruction c1 OP_RETURN 0)
      | None \<Rightarrow>
          (let (undef_index, c1) = add_constant c mjs_value_undefined;
               c2 = snd (emit_instruction c1 OP_LOAD_CONST undef_index)
           in emit_instruction c2 OP_RETURN 0))"
| "compile_statement c (Some AST_BREAK_STATEMENT) = (True, c)"
| "compile_statement c (Some AST_CONTINUE_STATEMENT) = (True, c)"
| "compile_statement c (Some _) = (False, compiler_error c ''Unknown statement type'')"

| "compile_statements c [] = (True, c)"
| "compile_statements c (st # sts) =
     (case compile_statement c st of
        (False, c1) \<Rightarrow> (False, c1)
      | (True, c1) \<Rightarrow> compile_statements c1 sts)"

| "compile_declarations c [] = (True, c)"
| "compile_declarations c ((name, init) # ds) =
     (case (case init of
              Some _ \<Rightarrow> compile_expression c init
            | None \<Rightarrow> (True, snd (emit_instruction c OP_PUSH_UNDEFINED 0))) of
        (False, c1) \<Rightarrow> (False, c1)
      | (True, c1) \<Rightarrow>
          (let (name_index, c2) = add_string c1 name
           in case emit_instruction c2 OP_STORE_VAR name_index of
                (False, c3) \<Rightarrow> (False, c3)
              | (True, c3) \<Rightarrow> compile_declarations c3 ds))"

text \<open>\<open>mjs_compile_ast\<close>: \<open>None\<close> is the \<open>NULL\<close> returned when compilation fails.\<close>

definition mjs_compile_ast :: "mjs_ast_node option \<Rightarrow> mjs_bytecode option" where
  "mjs_compile_ast ast =
     (case ast of
        None \<Rightarrow> None
      | Some node \<Rightarrow>
          (let compiler = \<lparr>c_bytecode = mjs_bytecode_new, current_scope_depth = 0,
                           c_has_error = False, c_error_message = []\<rparr>;
               (success, c1) =
                 (case node of
                    AST_PROGRAM body \<Rightarrow> compile_statement compiler ast
                  | _ \<Rightarrow> compile_expression compiler ast)
           in if \<not> success \<or> c_has_error c1 then None
              else Some (c_bytecode (snd (emit_instruction c1 OP_RETURN 0)))))"


subsection \<open>Programs and heaps used in the properties\<close>

text \<open>A new runtime with a new context.\<close>

definition fresh_context :: mjs_context where
  "fresh_context = mjs_new_context mjs_new_runtime"

text \<open>The bytecode of \<open>a + b\<close>: both constants loaded, \<open>OP_ADD\<close>, \<open>OP_RETURN\<close>.\<close>

definition prog_add :: "mjs_value \<Rightarrow> mjs_value \<Rightarrow> mjs_bytecode" where
  "prog_add a b =
     \<lparr>instructions = [\<lparr>opcode = OP_LOAD_CONST, operand = 0\<rparr>,
                      \<lparr>opcode = OP_LOAD_CONST, operand = 1\<rparr>,
                      \<lparr>opcode = OP_ADD, operand = 0\<rparr>,
                      \<lparr>opcode = OP_RETURN, operand = 0\<rparr>],
      instruction_capacity = 64, constants = [a, b], constant_capacity = 32,
      strings = [], string_capacity = 32\<rparr>"

text \<open>\<open>"5" + 1\<close> run on a new VM: the result code and the value stored through \<open>result\<close>.\<close>

definition eval_5_plus_1 :: "(mjs_result \<times> mjs_value option) option" where
  "eval_5_plus_1 =
     (let (s, ctx) = mjs_string_new fresh_context ''5''
      in map_option (\<lambda>(r, v, vm). (r, v))
           (mjs_vm_execute 10 (mjs_vm_new ctx) (prog_add (mjs_value_string s) (mjs_value_number (DNum 1)))))"

text \<open>
  The string \<open>"abc"\<close> converted by \<open>mjs_to_number\<close> (runtime.c) and by
  \<open>mjs_string_to_number\<close> (string.c).
\<close>

definition to_number_abc :: "double \<times> double" where
  "to_number_abc =
     (let (s, ctx) = mjs_string_new fresh_context ''abc''
      in (mjs_to_number (ctx_gc ctx) (mjs_value_string s),
          mjs_string_to_number (gc_string (ctx_gc ctx) s)))"

text \<open>
  The bound on operands: \<open>OP_LOAD_CONST\<close> indexes the constant pool, \<open>OP_LOAD_VAR\<close>,
  \<open>OP_STORE_VAR\<close>, \<open>OP_GET_PROP\<close> and \<open>OP_SET_PROP\<close> index the string pool.
\<close>

definition operand_in_bounds :: "mjs_bytecode \<Rightarrow> mjs_instruction \<Rightarrow> bool" where
  "operand_in_bounds bc instr =
     (if opcode instr = OP_LOAD_CONST then unat (operand instr) < length (constants bc)
      else if opcode instr = OP_LOAD_VAR \<or> opcode instr = OP_STORE_VAR
              \<or> opcode instr = OP_GET_PROP \<or> opcode instr = OP_SET_PROP
      then unat (operand instr) < length (strings bc)
      else True)"

definition bytecode_in_bounds :: "mjs_bytecode \<Rightarrow> bool" where
  "bytecode_in_bounds bc = list_all (operand_in_bounds bc) (instructions bc)"

text \<open>The program \<open>"hi";\<close> as the parser builds it.\<close>

definition program_hi :: mjs_ast_node where
  "program_hi =
     AST_PROGRAM
       [Some (AST_EXPRESSION_STATEMENT
                (Some (AST_LITERAL_STRING \<lparr>data = ''hi'', is_interned = False\<rparr>)))]"


text \<open>Two programs: one pops from the empty stack, one loads a constant that is not there.\<close>

definition prog_pop :: mjs_bytecode where
  "prog_pop =
     \<lparr>instructions = [\<lparr>opcode = OP_POP, operand = 0\<rparr>, \<lparr>opcode = OP_ADD, operand = 0\<rparr>],
      instruction_capacity = 64, constants = [], constant_capacity = 32,
      strings = [], string_capacity = 32\<rparr>"

definition prog_load_const_0 :: mjs_bytecode where
  "prog_load_const_0 =
     \<lparr>instructions = [\<lparr>opcode = OP_LOAD_CONST, operand = 0\<rparr>],
      instruction_capacity = 64, constants = [], constant_capacity = 32,
      strings = [], string_capacity = 32\<rparr>"

text \<open>
  A heap built with the API: an object \<open>A\<close> (cell 1) that is a root, and an object \<open>B\<close>
  (cell 2) that is the value of \<open>A\<close>'s property \<open>p\<close> and not a root itself. \<open>B\<close> is a
  root only while the key string is allocated, since every allocation collects first.
\<close>

definition object_with_property :: "mjs_context" where
  "object_with_property =
     (let (a, ctx1) = mjs_object_new fresh_context;
          ctx2 = ctx_set_gc ctx1 (snd (mjs_gc_add_root (ctx_gc ctx1) a));
          (b, ctx3) = mjs_object_new ctx2;
          ctx4 = ctx_set_gc ctx3 (snd (mjs_gc_add_root (ctx_gc ctx3) b));
          (r, ctx5) = mjs_object_define_property ctx4 a (Some ''p'') (mjs_value_object b) True True True
      in ctx_set_gc ctx5 (snd (mjs_gc_remove_root (ctx_gc ctx5) b)))"

text \<open>
  The instructions for which \<open>vm_execute_instruction\<close> returns \<open>false\<close> because of an
  operand: a pool index outside the pool, and \<open>OP_SWAP\<close> on fewer than two values.
\<close>

definition instruction_faults :: "mjs_vm \<Rightarrow> mjs_bytecode \<Rightarrow> mjs_instruction \<Rightarrow> bool" where
  "instruction_faults vm bc instr =
     (if opcode instr = OP_LOAD_CONST then unat (operand instr) \<ge> length (constants bc)
      else if opcode instr = OP_LOAD_VAR \<or> opcode instr = OP_STORE_VAR
              \<or> opcode instr = OP_GET_PROP \<or> opcode instr = OP_SET_PROP
      then unat (operand instr) \<ge> length (strings bc)
      else if opcode instr = OP_SWAP then length (stack vm) < 2
      else False)"

text \<open>The VM as \<open>mjs_vm_execute\<close> has it when it enters its loop on a new VM.\<close>

definition vm_entering :: "mjs_bytecode \<Rightarrow> mjs_vm" where
  "vm_entering bc =
     (snd (vm_push_frame (mjs_vm_new fresh_context) bc 0))\<lparr>state := VM_STATE_RUNNING\<rparr>"

text \<open>
  One turn of the loop of \<open>mjs_vm_execute\<close> for a VM that has a current frame: the fetch
  of the instruction, the increments of the program counter and of the instruction
  counter, and the call of \<open>vm_execute_instruction\<close>.
\<close>

definition vm_step :: "mjs_vm \<Rightarrow> (bool \<times> mjs_vm) option" where
  "vm_step vm =
     (case vm_current_frame vm of
        None \<Rightarrow> None
      | Some frame \<Rightarrow>
          (let instr = instructions (frame_bytecode frame) ! pc frame;
               vm1 = vm_set_pc vm (pc frame + 1);
               vm2 = vm1\<lparr>instructions_executed := instructions_executed vm1 + 1\<rparr>
           in vm_execute_instruction vm2 instr))"

text \<open>
  The instructions that pop their operands and go on whatever the operands are, and the
  instructions that pop their operands and return \<open>false\<close> unless the receiver among them is
  an object or an array.
\<close>

definition underflow_continues :: "mjs_bytecode \<Rightarrow> mjs_instruction \<Rightarrow> bool" where
  "underflow_continues bc instr =
     (opcode instr \<in> set [OP_POP, OP_ADD, OP_SUB, OP_MUL, OP_DIV, OP_MOD, OP_NEG, OP_PLUS,
                            OP_EQ, OP_NE, OP_LT, OP_LE, OP_GT, OP_GE, OP_AND, OP_OR, OP_NOT,
                            OP_BIT_AND, OP_BIT_OR, OP_BIT_XOR, OP_BIT_NOT, OP_SHL, OP_SHR,
                            OP_GET_PROP_COMPUTED, OP_ARRAY_POP, OP_ARRAY_GET, OP_RETURN,
                            OP_JUMP_IF_TRUE, OP_JUMP_IF_FALSE]
      \<or> (opcode instr = OP_GET_PROP \<and> unat (operand instr) < length (strings bc)))"

definition underflow_type_error :: "mjs_bytecode \<Rightarrow> mjs_instruction \<Rightarrow> bool" where
  "underflow_type_error bc instr =
     (opcode instr \<in> set [OP_SET_PROP_COMPUTED, OP_ARRAY_PUSH, OP_ARRAY_SET]
      \<or> (opcode instr = OP_SET_PROP \<and> unat (operand instr) < length (strings bc)))"

text \<open>A program that pushes onto an array that is not there.\<close>

definition prog_array_push :: mjs_bytecode where
  "prog_array_push =
     \<lparr>instructions = [\<lparr>opcode = OP_ARRAY_PUSH, operand = 0\<rparr>],
      instruction_capacity = 64, constants = [], constant_capacity = 32,
      strings = [], string_capacity = 32\<rparr>"

text \<open>
  The contents of the heap cells without their headers: what allocation, marking and
  sweeping leave alone.
\<close>

abbreviation payloads :: "mjs_gc \<Rightarrow> gc_payload list" where
  "payloads g \<equiv> map payload (cells g)"






text \<open>
  The calls of callbacks that the collector has made for the weak reference \<open>w\<close>, oldest
  first: the callback and the \<open>userdata\<close> passed to it. \<open>weak_ref_with_callback\<close> is
  \<open>weak_ref_unrooted\<close> after the host has stored the callback 7 with the user data 9 in the
  handle.
\<close>

definition callbacks_of :: "mjs_gc \<Rightarrow> nat \<Rightarrow> (nat \<times> nat option) list" where
  "callbacks_of g w = map snd (filter (\<lambda>e. fst e = w) (callback_log g))"


text \<open>
  \<open>is_white g t\<close>: the cell \<open>t\<close> is an allocation whose mark is white. \<open>marked_heap g\<close> is
  the heap as the two marking steps of \<open>mjs_gc_collect\<close> leave it, before the sweep.
\<close>

definition is_white :: "mjs_gc \<Rightarrow> addr \<Rightarrow> bool" where
  "is_white g t = (case gc_header g t of None \<Rightarrow> False | Some h \<Rightarrow> mark h = GC_MARK_WHITE)"

definition marked_heap :: "mjs_gc \<Rightarrow> mjs_gc" where
  "marked_heap g = gc_process_gray_stack (gc_mark_roots (g\<lparr>gc_state := GC_STATE_MARKING\<rparr>))"


section \<open>Properties\<close>

subsection \<open>Rules for evaluating the definitions\<close>

lemmas gc_defs = mjs_gc_alloc_def gc_alloc_object_def gc_should_collect_def mjs_gc_collect_def
  gc_mark_roots_def gc_process_gray_stack_def gc_sweep_def gc_compact_def gc_update_statistics_def
  gc_header_def gc_payload_at_def gc_set_mark_def gc_store_def gc_mark_object_def gc_sweep_unlink_def
  mjs_gc_new_def empty_generation_def zero_stats_def
  GC_MARK_WHITE_def GC_MARK_GRAY_def GC_MARK_BLACK_def GC_TYPE_STRING_def GC_TYPE_ARRAY_def
  GC_TYPE_OBJECT_def GC_TYPE_FUNCTION_def GC_HEADER_SIZE_def sizeof_mjs_string_def
  sizeof_mjs_object_def sizeof_mjs_array_def GC_INITIAL_HEAP_SIZE_def GC_GROWTH_FACTOR_def
  GC_YOUNG_GENERATION_SIZE_def d_ge_def d_le_def d_eq_def

lemmas ctx_defs = ctx_gc_def ctx_set_gc_def mjs_new_runtime_def mjs_new_context_def mjs_object_def
  mjs_object_new_def mjs_undefined_def mjs_string_new_def gc_string_def gc_object_def gc_array_def
  gc_store_object_def gc_store_array_def ctx_global_def fresh_context_def

lemmas value_defs = mjs_null_def mjs_boolean_def mjs_number_def mjs_value_undefined_def
  mjs_value_null_def mjs_value_boolean_def mjs_value_number_def mjs_value_string_def
  mjs_value_array_def mjs_value_object_def mjs_is_string_def mjs_is_object_def
  mjs_is_function_def mjs_is_array_def mjs_get_boolean_def mjs_get_number_def
  mjs_get_string_def mjs_get_object_def mjs_get_array_def

lemmas vm_defs = mjs_vm_new_def vm_push_def vm_pop_def vm_peek_def vm_drop_def vm_push_frame_def
  vm_pop_frame_def vm_current_frame_def vm_gc_def vm_set_gc_def vm_set_pc_def vm_binary_def
  vm_unary_def vm_int32_def mjs_vm_execute_def VM_STACK_SIZE_def VM_CALL_STACK_SIZE_def
  VM_EXCEPTION_STACK_SIZE_def MJS_ERROR_def vm_execute_instruction_def

lemmas compiler_defs = mjs_compile_ast_def compile_literal_def compile_identifier_def
  compile_binary_operator_def compile_unary_operator_def compile_function_declaration_def
  emit_instruction_def add_constant_def add_string_def compiler_error_def
  mjs_bytecode_new_def mjs_bytecode_emit_def mjs_bytecode_add_constant_def
  mjs_bytecode_add_string_def mjs_bytecode_emit_jump_def mjs_bytecode_patch_jump_def
  mjs_bytecode_get_current_offset_def

lemmas libc_defs = strtod_def strtod_hex_def strtod_decimal_def strtod_mantissa_def
  strtod_exponent_def strtod_nan_tag_def isspace_def isdigit_def isxdigit_def tolower_def
  digit_val_def xdigit_val_def isalnum_us_def dec_value_def hex_value_def pow_int_def
  c_str_def MJS_STREQ_def

lemmas vm_dispatch_loop_numeral =
  vm_dispatch_loop.simps(2) [of "pred_numeral k" for k, folded numeral_eq_Suc]

lemmas gc_mark_object_depth_numeral =
  gc_mark_object_depth.simps(2,3) [of "pred_numeral k" for k, folded numeral_eq_Suc]

lemmas gc_process_gray_stack_steps_numeral =
  gc_process_gray_stack_steps.simps(2) [of "pred_numeral k" for k, folded numeral_eq_Suc]

lemmas fuel_numeral = vm_dispatch_loop_numeral gc_mark_object_depth_numeral
  gc_process_gray_stack_steps_numeral

lemmas eval_cong = option.case_cong_weak prod.case_cong_weak list.case_cong_weak
  sum.case_cong_weak bool.case_cong_weak let_weak_cong

lemmas scenario_defs = object_with_property_def mjs_object_define_property_def
  mjs_object_get_property_def mjs_object_get_property_value_def mjs_gc_add_root_def
  mjs_gc_remove_root_def



subsection \<open>What marking, sweeping and allocation leave alone\<close>

text \<open>
  The collector writes headers, lists and counters only. The payloads of the cells, the
  weak reference records and the log of callbacks are the same after a mark or a sweep
  of the generation lists; an allocation adds one cell at the end of the heap.
\<close>

lemma map_update_same: "(map f xs)[a := f (xs ! a)] = map f xs"
  by (metis list_update_id map_update)

lemma gc_payload_at_payloads:
  "gc_payload_at g a = (if a < length (payloads g) then Some (payloads g ! a) else None)"
  by (simp add: gc_payload_at_def)

lemma payloads_gc_set_mark [simp]: "payloads (gc_set_mark g a m) = payloads g"
  by (simp add: gc_set_mark_def map_update map_update_same)


lemma payloads_fold:
  assumes "\<And>x g. x \<in> set xs \<Longrightarrow> payloads (f x g) = payloads g"
  shows "payloads (fold f xs g) = payloads g"
  using assms by (induction xs arbitrary: g) simp_all

lemma payloads_mark_children:
  assumes IH: "\<And>g obj. payloads (D g obj) = payloads g"
  shows "payloads
     (if ty = GC_TYPE_STRING then g2
      else if ty = GC_TYPE_OBJECT then
        (case po of
           Some (PObject object) \<Rightarrow>
             fold (\<lambda>prop g'. case key prop of None \<Rightarrow> g' | Some k \<Rightarrow> D g' (Some k))
                  (properties object)
                  (case prototype object of None \<Rightarrow> g2 | Some p \<Rightarrow> D g2 (Some p))
         | _ \<Rightarrow> g2)
      else if ty = GC_TYPE_ARRAY then g2
      else if ty = GC_TYPE_FUNCTION then
        (case po of
           Some (PFunction function) \<Rightarrow>
             (case fname function of None \<Rightarrow> g2 | Some nm \<Rightarrow> D g2 (Some nm))
         | _ \<Rightarrow> g2)
      else g2) = payloads g2"
proof -
  have step: "payloads (case p of None \<Rightarrow> g' | Some k \<Rightarrow> D g' (Some k)) = payloads g'" for g' p
    by (simp add: IH split: option.splits)
  have fold_step:
    "payloads (fold (\<lambda>prop g'. case key prop of None \<Rightarrow> g' | Some k \<Rightarrow> D g' (Some k)) ps g')
       = payloads g'" for ps g'
    by (rule payloads_fold) (simp add: step)
  show ?thesis
    by (simp add: fold_step step split: option.splits gc_payload.splits)
qed

lemma payloads_gc_mark_object_depth [simp]:
  "payloads (gc_mark_object_depth n g obj) = payloads g"
proof (induction n arbitrary: g obj)
  case 0
  show ?case by simp
next
  case (Suc n)
  show ?case
  proof (cases obj)
    case None
    then show ?thesis by simp
  next
    case (Some a)
    note children = payloads_mark_children [where D = "gc_mark_object_depth n", OF Suc.IH]
    show ?thesis
      unfolding Some gc_mark_object_depth.simps Let_def
      by (simp add: children split: option.splits)
  qed
qed

lemma payloads_gc_mark_object [simp]: "payloads (gc_mark_object g obj) = payloads g"
  by (simp add: gc_mark_object_def)

lemma payloads_gc_mark_roots [simp]: "payloads (gc_mark_roots g) = payloads g"
  unfolding gc_mark_roots_def by (rule payloads_fold) simp

lemma payloads_gc_process_gray_stack_steps [simp]:
  "payloads (gc_process_gray_stack_steps n g) = payloads g"
  by (induction n arbitrary: g) (simp_all split: list.splits)

lemma payloads_gc_process_gray_stack [simp]: "payloads (gc_process_gray_stack g) = payloads g"
  by (simp add: gc_process_gray_stack_def)

lemma payloads_gc_sweep_unlink [simp]: "payloads (gc_sweep_unlink y h g) = payloads g"
  by (simp add: gc_sweep_unlink_def Let_def)

lemma payloads_gc_sweep_chain [simp]:
  "payloads (snd (gc_sweep_chain y xs g)) = payloads g"
  by (induction xs arbitrary: g) (simp_all add: split_beta Let_def split: option.splits)

lemma payloads_gc_sweep_weak_refs [simp]:
  "cells (snd (gc_sweep_weak_refs ws g)) = cells g"
  by (induction ws arbitrary: g) (simp_all add: split_beta Let_def split: option.splits)

lemma payloads_gc_sweep [simp]: "payloads (gc_sweep g) = payloads g"
  by (simp add: gc_sweep_def Let_def split_beta)

lemma payloads_mjs_gc_collect [simp]: "payloads (mjs_gc_collect g) = payloads g"
  by (simp add: mjs_gc_collect_def Let_def gc_compact_def gc_update_statistics_def)

lemma payloads_gc_alloc_object:
  "gc_alloc_object g sz ty = (Some (length (cells g)), snd (gc_alloc_object g sz ty))
   \<and> payloads (snd (gc_alloc_object g sz ty)) = payloads g @ [Uninit]"
  by (simp add: gc_alloc_object_def Let_def)




lemma gc_sweep_unlink_frame [simp]:
  "cells (gc_sweep_unlink y h g) = cells g"
  "weak_refs (gc_sweep_unlink y h g) = weak_refs g"
  "weak_ref_cells (gc_sweep_unlink y h g) = weak_ref_cells g"
  "callback_log (gc_sweep_unlink y h g) = callback_log g"
  by (simp_all add: gc_sweep_unlink_def Let_def)

lemma gc_set_mark_frame [simp]:
  "weak_refs (gc_set_mark g a m) = weak_refs g"
  "weak_ref_cells (gc_set_mark g a m) = weak_ref_cells g"
  "callback_log (gc_set_mark g a m) = callback_log g"
  "length (cells (gc_set_mark g a m)) = length (cells g)"
  by (simp_all add: gc_set_mark_def)

lemma gc_sweep_chain_frame [simp]:
  "weak_refs (snd (gc_sweep_chain y xs g)) = weak_refs g"
  "weak_ref_cells (snd (gc_sweep_chain y xs g)) = weak_ref_cells g"
  "callback_log (snd (gc_sweep_chain y xs g)) = callback_log g"
  by (induction xs arbitrary: g; simp add: split_beta Let_def split: option.splits)+





subsection \<open>The claims\<close>

text \<open>
  C1. \<open>mjs_eval\<close> is claimed to parse, compile and run the source and to return the result
  of the program, so that \<open>var x = 2 + 3 * 4; x\<close> yields the number 14. The function as
  written stores \<open>undefined\<close> and returns \<open>MJS_OK\<close> for every context and every source, and
  so also for that program.
\<close>

theorem mjs_eval_stores_undefined:
  "mjs_eval (Some ctx) (Some source) filename True = (MJS_OK, Some VUndefined)
   \<and> mjs_eval (Some ctx) (Some ''var x = 2 + 3 * 4; x'') filename True
       \<noteq> (MJS_OK, Some (VNumber (DNum 14)))"
  by (simp add: mjs_eval_def mjs_undefined_def)

text \<open>
  C2. \<open>OP_ADD\<close> with a string operand is claimed to push the concatenation of the two
  operands converted to strings, so that \<open>"5" + 1\<close> is \<open>"51"\<close>. \<open>vm_add\<close> converts both
  operands and then returns \<open>undefined\<close>: whenever either operand is a string the result is
  \<open>undefined\<close>, and running \<open>"5" + 1\<close> stores \<open>undefined\<close>.
\<close>

theorem vm_add_string_operand_undefined:
  "vm_add vm (VString s) b = VUndefined \<and> vm_add vm a (VString s) = VUndefined
   \<and> eval_5_plus_1 = Some (MJS_OK, Some VUndefined)"
  by (simp add: eval_5_plus_1_def prog_add_def vm_add_def gc_defs ctx_defs value_defs vm_defs
        opcode_defs Let_def fuel_numeral cong: eval_cong)

text \<open>
  C3. Two arrays, or two functions, are claimed to be equal exactly when they are the same
  heap object. \<open>vm_equals\<close> compares \<open>mjs_get_object\<close> of both operands, which is \<open>NULL\<close>
  for every value whose tag is not object: two distinct arrays are equal, and so are any
  two arrays and any two functions.
\<close>

theorem vm_equals_arrays_functions_always_equal:
  "vm_equals vm (VArray (Some 1)) (VArray (Some 2))
   \<and> (\<forall>p q. vm_equals vm (VArray p) (VArray q))
   \<and> (\<forall>p q. vm_equals vm (VFunction p) (VFunction q))"
  by (simp add: vm_equals_def mjs_get_object_def)

text \<open>
  C4. The marker is claimed to visit, for an object, the value of each property as well
  as its key. In the heap \<open>object_with_property\<close> the root \<open>A\<close> (cell 1) has the property
  \<open>p\<close> (key string in cell 3) whose value is the object \<open>B\<close> (cell 2). Marking \<open>A\<close> leaves
  \<open>B\<close> white and never puts it on the gray stack, and a collection unlinks \<open>B\<close> from the
  young generation although \<open>A\<close> still refers to it.
\<close>

theorem marker_skips_property_value:
  "roots (ctx_gc object_with_property) = [1]
   \<and> mjs_object_get_property_value (ctx_gc object_with_property) (Some 1) (Some ''p'') = VObject (Some 2)
   \<and> map (mark \<circ> header) (cells (gc_mark_object (ctx_gc object_with_property) (Some 1)))
       = [GC_MARK_WHITE, GC_MARK_BLACK, GC_MARK_WHITE, GC_MARK_BLACK]
   \<and> gray_stack (gc_mark_object (ctx_gc object_with_property) (Some 1)) = [3, 1]
   \<and> objects (young_generation (ctx_gc object_with_property)) = [3, 2, 1]
   \<and> objects (young_generation (mjs_gc_collect (ctx_gc object_with_property))) = [3, 1]"
  by (simp add: scenario_defs gc_defs ctx_defs value_defs libc_defs Let_def fuel_numeral
        cong: eval_cong)



lemma callbacks_of_weak_ref_cells [simp]:
  "callbacks_of (g\<lparr>weak_ref_cells := c\<rparr>) w = callbacks_of g w"
  "callbacks_of (g\<lparr>weak_refs := r\<rparr>) w = callbacks_of g w"
  by (simp_all add: callbacks_of_def)

lemma is_white_weak_fields [simp]:
  "is_white (g\<lparr>weak_ref_cells := c\<rparr>) t = is_white g t"
  "is_white (g\<lparr>callback_log := l\<rparr>) t = is_white g t"
  "is_white (g\<lparr>weak_refs := r\<rparr>) t = is_white g t"
  "is_white (g\<lparr>young_generation := yg\<rparr>) t = is_white g t"
  "is_white (g\<lparr>old_generation := og\<rparr>) t = is_white g t"
  by (simp_all add: is_white_def gc_header_def)


lemma gc_sweep_weak_refs_length:
  "length (weak_ref_cells (snd (gc_sweep_weak_refs ws g))) = length (weak_ref_cells g)"
  by (induction ws arbitrary: g) (simp_all add: split_beta Let_def split: option.splits)



lemma gc_header_weak_fields [simp]:
  "gc_header (g\<lparr>weak_ref_cells := c\<rparr>) t = gc_header g t"
  "gc_header (g\<lparr>callback_log := l\<rparr>) t = gc_header g t"
  by (simp_all add: gc_header_def)





lemma frame_fold:
  assumes "\<And>x g. x \<in> set xs \<Longrightarrow> P (f x g) = P g"
  shows "P (fold f xs g) = P g"
  using assms by (induction xs arbitrary: g) simp_all

lemma frame_mark_children:
  assumes IH: "\<And>g obj. P (D g obj) = P g"
  shows "P
     (if ty = GC_TYPE_STRING then g2
      else if ty = GC_TYPE_OBJECT then
        (case po of
           Some (PObject object) \<Rightarrow>
             fold (\<lambda>prop g'. case key prop of None \<Rightarrow> g' | Some k \<Rightarrow> D g' (Some k))
                  (properties object)
                  (case prototype object of None \<Rightarrow> g2 | Some p \<Rightarrow> D g2 (Some p))
         | _ \<Rightarrow> g2)
      else if ty = GC_TYPE_ARRAY then g2
      else if ty = GC_TYPE_FUNCTION then
        (case po of
           Some (PFunction function) \<Rightarrow>
             (case fname function of None \<Rightarrow> g2 | Some nm \<Rightarrow> D g2 (Some nm))
         | _ \<Rightarrow> g2)
      else g2) = P g2"
proof -
  have step: "P (case p of None \<Rightarrow> g' | Some k \<Rightarrow> D g' (Some k)) = P g'" for g' p
    using IH by (cases p) simp_all
  have fold_step:
    "P (fold (\<lambda>prop g'. case key prop of None \<Rightarrow> g' | Some k \<Rightarrow> D g' (Some k)) ps g')
       = P g'" for ps g'
    by (rule frame_fold) (rule step)
  show ?thesis
    by (simp add: fold_step step split: option.splits gc_payload.splits)
qed

lemma frame_gc_mark_object_depth:
  assumes sm: "\<And>g a m. P (gc_set_mark g a m) = P g"
    and gr: "\<And>g c. P (g\<lparr>gray_capacity := c\<rparr>) = P g"
    and gs: "\<And>g s. P (g\<lparr>gray_stack := s\<rparr>) = P g"
  shows "P (gc_mark_object_depth n g obj) = P g"
proof (induction n arbitrary: g obj)
  case 0
  show ?case by simp
next
  case (Suc n)
  show ?case
  proof (cases obj)
    case None
    then show ?thesis by simp
  next
    case (Some a)
    note children = frame_mark_children [where D = "gc_mark_object_depth n" and P = P, OF Suc.IH]
    show ?thesis
      unfolding Some gc_mark_object_depth.simps Let_def
      by (simp add: children sm gr gs split: option.splits)
  qed
qed

lemma frame_marked_heap:
  assumes sm: "\<And>g a m. P (gc_set_mark g a m) = P g"
    and gr: "\<And>g c. P (g\<lparr>gray_capacity := c\<rparr>) = P g"
    and gs: "\<And>g s. P (g\<lparr>gray_stack := s\<rparr>) = P g"
    and st: "\<And>g s. P (g\<lparr>gc_state := s\<rparr>) = P g"
  shows "P (marked_heap g) = P g"
proof -
  have m: "P (gc_mark_object g' obj) = P g'" for g' obj
    unfolding gc_mark_object_def by (rule frame_gc_mark_object_depth [OF sm gr gs])
  have r: "P (gc_mark_roots g') = P g'" for g'
    unfolding gc_mark_roots_def by (rule frame_fold) (rule m)
  have s: "P (gc_process_gray_stack_steps n g') = P g'" for n g'
  proof (induction n arbitrary: g')
    case 0
    show ?case by simp
  next
    case (Suc n)
    show ?case
    proof (cases "gray_stack g'")
      case Nil
      then show ?thesis by simp
    next
      case (Cons a rest)
      have "P (gc_mark_object (g'\<lparr>gray_stack := rest\<rparr>) (Some a)) = P g'"
        using m [of "g'\<lparr>gray_stack := rest\<rparr>" "Some a"] gs by simp
      with Suc.IH [of "gc_mark_object (g'\<lparr>gray_stack := rest\<rparr>) (Some a)"] Cons
      show ?thesis by simp
    qed
  qed
  show ?thesis
    unfolding marked_heap_def gc_process_gray_stack_def
    using s r [of "g\<lparr>gc_state := GC_STATE_MARKING\<rparr>"] st by simp
qed

lemma marked_heap_weak [simp]:
  "weak_refs (marked_heap g) = weak_refs g"
  "weak_ref_cells (marked_heap g) = weak_ref_cells g"
  "callback_log (marked_heap g) = callback_log g"
  by (rule frame_marked_heap; simp)+






text \<open>
  C6, as stated, at the program \<open>OP_POP; OP_ADD\<close> run on a new VM: popping from the empty
  stack is no fault. Both instructions are executed, the result code is \<open>MJS_OK\<close> and the
  state afterwards is \<open>VM_STATE_READY\<close>.
\<close>

theorem empty_stack_pop_continues:
  "map_option fst (mjs_vm_execute 10 (mjs_vm_new fresh_context) prog_pop) = Some MJS_OK
   \<and> map_option (state \<circ> snd \<circ> snd) (mjs_vm_execute 10 (mjs_vm_new fresh_context) prog_pop)
       = Some VM_STATE_READY
   \<and> map_option (instructions_executed \<circ> snd \<circ> snd)
         (mjs_vm_execute 10 (mjs_vm_new fresh_context) prog_pop) = Some 2"
  by (simp add: prog_pop_def gc_defs ctx_defs value_defs vm_defs opcode_defs Let_def
        vm_add_def mjs_to_number_def fuel_numeral cong: eval_cong)

lemma faulting_instruction_returns_false:
  assumes "vm_current_frame vm = Some frame"
    and "instruction_faults vm (frame_bytecode frame) instr"
  shows "vm_execute_instruction vm instr = Some (False, vm)"
proof -
  consider "opcode instr = OP_LOAD_CONST" | "opcode instr = OP_LOAD_VAR"
    | "opcode instr = OP_STORE_VAR" | "opcode instr = OP_GET_PROP"
    | "opcode instr = OP_SET_PROP" | "opcode instr = OP_SWAP"
    using assms(2) by (auto simp: instruction_faults_def split: if_splits)
  then show ?thesis
    using assms
    by cases (simp_all add: vm_execute_instruction_def instruction_faults_def opcode_defs)
qed

lemma underflow_continues_returns_true:
  assumes "call_stack vm = frame # rest" and "stack vm = []" and "0 < stack_capacity vm"
    and "underflow_continues (frame_bytecode frame) instr"
  shows "\<exists>vm'. vm_execute_instruction vm instr = Some (True, vm') \<and> state vm' = state vm"
proof -
  from assms(4) have
    "opcode instr = OP_POP \<or> opcode instr = OP_ADD \<or> opcode instr = OP_SUB
     \<or> opcode instr = OP_MUL \<or> opcode instr = OP_DIV \<or> opcode instr = OP_MOD
     \<or> opcode instr = OP_NEG \<or> opcode instr = OP_PLUS \<or> opcode instr = OP_EQ
     \<or> opcode instr = OP_NE \<or> opcode instr = OP_LT \<or> opcode instr = OP_LE
     \<or> opcode instr = OP_GT \<or> opcode instr = OP_GE \<or> opcode instr = OP_AND
     \<or> opcode instr = OP_OR \<or> opcode instr = OP_NOT \<or> opcode instr = OP_BIT_AND
     \<or> opcode instr = OP_BIT_OR \<or> opcode instr = OP_BIT_XOR \<or> opcode instr = OP_BIT_NOT
     \<or> opcode instr = OP_SHL \<or> opcode instr = OP_SHR
     \<or> opcode instr = OP_GET_PROP_COMPUTED \<or> opcode instr = OP_ARRAY_POP
     \<or> opcode instr = OP_ARRAY_GET \<or> opcode instr = OP_RETURN
     \<or> opcode instr = OP_JUMP_IF_TRUE \<or> opcode instr = OP_JUMP_IF_FALSE
     \<or> (opcode instr = OP_GET_PROP \<and> unat (operand instr) < length (strings (frame_bytecode frame)))"
    by (simp add: underflow_continues_def)
  then show ?thesis
    using assms(1,2,3)
    by (elim disjE conjE)
       (simp_all add: vm_execute_instruction_def opcode_defs vm_current_frame_def vm_binary_def
          vm_unary_def vm_pop_def vm_push_def vm_pop_frame_def vm_set_pc_def value_defs
          mjs_undefined_def mjs_to_boolean_def Let_def)
qed

lemma underflow_type_error_returns_false:
  assumes "call_stack vm = frame # rest" and "stack vm = []"
    and "underflow_type_error (frame_bytecode frame) instr"
  shows "\<exists>vm'. vm_execute_instruction vm instr = Some (False, vm')"
proof -
  from assms(3) have
    "opcode instr = OP_SET_PROP_COMPUTED \<or> opcode instr = OP_ARRAY_PUSH
     \<or> opcode instr = OP_ARRAY_SET
     \<or> (opcode instr = OP_SET_PROP \<and> unat (operand instr) < length (strings (frame_bytecode frame)))"
    by (simp add: underflow_type_error_def)
  then show ?thesis
    using assms(1,2)
    by (elim disjE conjE)
       (simp_all add: vm_execute_instruction_def opcode_defs vm_current_frame_def
          vm_pop_def vm_peek_def value_defs mjs_undefined_def Let_def)
qed


lemma vm_dispatch_loop_turn:
  assumes "state vm = VM_STATE_RUNNING" and "call_stack vm = frame # rest"
    and "pc frame < length (instructions (frame_bytecode frame))"
  shows "vm_dispatch_loop (Suc n) vm =
           (case vm_step vm of
              None \<Rightarrow> None
            | Some (False, vm3) \<Rightarrow> Some (Inl (vm3\<lparr>state := VM_STATE_ERROR\<rparr>))
            | Some (True, vm3) \<Rightarrow> vm_dispatch_loop n vm3)"
  using assms by (simp add: vm_step_def vm_current_frame_def Let_def)

lemma vm_step_fetch:
  assumes "call_stack vm = frame # rest"
  shows "\<exists>vm2. vm_step vm
                 = vm_execute_instruction vm2 (instructions (frame_bytecode frame) ! pc frame)
               \<and> call_stack vm2 = frame\<lparr>pc := pc frame + 1\<rparr> # rest
               \<and> stack vm2 = stack vm \<and> state vm2 = state vm
               \<and> stack_capacity vm2 = stack_capacity vm"
  using assms
  by (intro exI [of _ "(vm_set_pc vm (pc frame + 1))
                         \<lparr>instructions_executed :=
                            instructions_executed (vm_set_pc vm (pc frame + 1)) + 1\<rparr>"])
     (simp add: vm_step_def vm_current_frame_def vm_set_pc_def Let_def)

lemma instruction_faults_stack:
  "stack vm2 = stack vm \<Longrightarrow> instruction_faults vm2 bc instr = instruction_faults vm bc instr"
  by (simp add: instruction_faults_def)

text \<open>
  C6, amended. When the instruction at the program counter of a running VM refers to a
  pool index outside the pool of the current bytecode, or is \<open>OP_SWAP\<close> on fewer than two
  values, the dispatch loop returns at once with the state set to \<open>VM_STATE_ERROR\<close>.
  A pop from the empty operand stack is not a fault of its own: \<open>vm_pop\<close> returns
  \<open>undefined\<close> and leaves the VM as it is, whatever the instruction. On the empty stack
  of a VM whose stack has a capacity above 0, the instructions of \<open>underflow_continues\<close> (\<open>OP_POP\<close>, the arithmetic, comparison, logical,
  bitwise and shift operators, \<open>OP_GET_PROP\<close> with an index inside the pool,
  \<open>OP_GET_PROP_COMPUTED\<close>, \<open>OP_ARRAY_POP\<close>, \<open>OP_ARRAY_GET\<close>, \<open>OP_RETURN\<close> and the two
  conditional jumps) return \<open>true\<close>, and the loop goes on with the VM still running. The
  instructions of \<open>underflow_type_error\<close> (\<open>OP_SET_PROP\<close> with an index inside the pool,
  \<open>OP_SET_PROP_COMPUTED\<close>, \<open>OP_ARRAY_PUSH\<close>, \<open>OP_ARRAY_SET\<close>) do end in the error state
  there, because the \<open>undefined\<close> they pop is not the object or array they need.
\<close>

theorem fault_sets_error_state_and_halts:
  "(state vm = VM_STATE_RUNNING \<and> call_stack vm = frame # rest
      \<and> pc frame < length (instructions (frame_bytecode frame))
      \<and> instruction_faults vm (frame_bytecode frame)
            (instructions (frame_bytecode frame) ! pc frame)
    \<longrightarrow> (\<exists>vm'. vm_dispatch_loop (Suc n) vm = Some (Inl vm') \<and> state vm' = VM_STATE_ERROR))
   \<and> (stack vm = [] \<longrightarrow> vm_pop vm = (VUndefined, vm))
   \<and> (state vm = VM_STATE_RUNNING \<and> call_stack vm = frame # rest
      \<and> pc frame < length (instructions (frame_bytecode frame))
      \<and> stack vm = [] \<and> 0 < stack_capacity vm
      \<and> underflow_continues (frame_bytecode frame)
            (instructions (frame_bytecode frame) ! pc frame)
    \<longrightarrow> (\<exists>vm'. vm_step vm = Some (True, vm') \<and> state vm' = VM_STATE_RUNNING
               \<and> vm_dispatch_loop (Suc n) vm = vm_dispatch_loop n vm'))
   \<and> (state vm = VM_STATE_RUNNING \<and> call_stack vm = frame # rest
      \<and> pc frame < length (instructions (frame_bytecode frame))
      \<and> stack vm = []
      \<and> underflow_type_error (frame_bytecode frame)
            (instructions (frame_bytecode frame) ! pc frame)
    \<longrightarrow> (\<exists>vm'. vm_dispatch_loop (Suc n) vm = Some (Inl vm') \<and> state vm' = VM_STATE_ERROR))"
proof (intro conjI impI)
  let ?instr = "instructions (frame_bytecode frame) ! pc frame"
  {
    assume a: "state vm = VM_STATE_RUNNING \<and> call_stack vm = frame # rest
      \<and> pc frame < length (instructions (frame_bytecode frame))
      \<and> instruction_faults vm (frame_bytecode frame) ?instr"
    then obtain vm2 where s: "vm_step vm = vm_execute_instruction vm2 ?instr"
      and c: "call_stack vm2 = frame\<lparr>pc := pc frame + 1\<rparr> # rest" and st: "stack vm2 = stack vm"
      using vm_step_fetch by blast
    have "vm_current_frame vm2 = Some (frame\<lparr>pc := pc frame + 1\<rparr>)"
      by (simp add: vm_current_frame_def c)
    moreover have "instruction_faults vm2 (frame_bytecode (frame\<lparr>pc := pc frame + 1\<rparr>)) ?instr"
      using a instruction_faults_stack [OF st] by simp
    ultimately have "vm_step vm = Some (False, vm2)"
      unfolding s by (rule faulting_instruction_returns_false)
    then show "\<exists>vm'. vm_dispatch_loop (Suc n) vm = Some (Inl vm') \<and> state vm' = VM_STATE_ERROR"
      using a by (simp add: vm_dispatch_loop_turn [of vm frame rest n] del: vm_dispatch_loop.simps)
  }
  {
    assume "stack vm = []"
    then show "vm_pop vm = (VUndefined, vm)"
      by (simp add: vm_pop_def mjs_value_undefined_def mjs_undefined_def)
  }
  {
    assume a: "state vm = VM_STATE_RUNNING \<and> call_stack vm = frame # rest
      \<and> pc frame < length (instructions (frame_bytecode frame))
      \<and> stack vm = [] \<and> 0 < stack_capacity vm
      \<and> underflow_continues (frame_bytecode frame) ?instr"
    then obtain vm2 where s: "vm_step vm = vm_execute_instruction vm2 ?instr"
      and c: "call_stack vm2 = frame\<lparr>pc := pc frame + 1\<rparr> # rest" and st: "stack vm2 = stack vm"
      and r: "state vm2 = state vm" and cap: "stack_capacity vm2 = stack_capacity vm"
      using vm_step_fetch by blast
    have "\<exists>vm'. vm_execute_instruction vm2 ?instr = Some (True, vm') \<and> state vm' = state vm2"
      by (rule underflow_continues_returns_true [OF c]) (use a st cap in simp_all)
    then obtain vm' where "vm_step vm = Some (True, vm')" "state vm' = VM_STATE_RUNNING"
      using s r a by auto
    then show "\<exists>vm'. vm_step vm = Some (True, vm') \<and> state vm' = VM_STATE_RUNNING
               \<and> vm_dispatch_loop (Suc n) vm = vm_dispatch_loop n vm'"
      using a by (simp add: vm_dispatch_loop_turn [of vm frame rest n] del: vm_dispatch_loop.simps)
  }
  {
    assume a: "state vm = VM_STATE_RUNNING \<and> call_stack vm = frame # rest
      \<and> pc frame < length (instructions (frame_bytecode frame))
      \<and> stack vm = []
      \<and> underflow_type_error (frame_bytecode frame) ?instr"
    then obtain vm2 where s: "vm_step vm = vm_execute_instruction vm2 ?instr"
      and c: "call_stack vm2 = frame\<lparr>pc := pc frame + 1\<rparr> # rest" and st: "stack vm2 = stack vm"
      using vm_step_fetch by blast
    have "\<exists>vm'. vm_execute_instruction vm2 ?instr = Some (False, vm')"
      by (rule underflow_type_error_returns_false [OF c]) (use a st in simp_all)
    then obtain vm' where "vm_step vm = Some (False, vm')"
      using s by auto
    then show "\<exists>vm'. vm_dispatch_loop (Suc n) vm = Some (Inl vm') \<and> state vm' = VM_STATE_ERROR"
      using a by (simp add: vm_dispatch_loop_turn [of vm frame rest n] del: vm_dispatch_loop.simps)
  }
qed

lemma vm_entering_fields:
  "state (vm_entering bc) = VM_STATE_RUNNING"
  "call_stack (vm_entering bc)
     = [\<lparr>frame_bytecode = bc, pc = 0, locals_base = 0, this_value = VUndefined\<rparr>]"
  "stack (vm_entering bc) = []"
  "stack_capacity (vm_entering bc) = VM_STACK_SIZE"
  by (simp_all add: vm_entering_def vm_push_frame_def mjs_vm_new_def VM_CALL_STACK_SIZE_def
        mjs_value_undefined_def mjs_undefined_def)

theorem fault_sets_error_state_and_halts_witness:
  "instruction_faults (vm_entering prog_load_const_0) prog_load_const_0
         (instructions prog_load_const_0 ! 0)
   \<and> (\<exists>vm'. vm_dispatch_loop (Suc 0) (vm_entering prog_load_const_0) = Some (Inl vm')
             \<and> state vm' = VM_STATE_ERROR)
   \<and> stack (vm_entering prog_pop) = []
   \<and> vm_pop (vm_entering prog_pop) = (VUndefined, vm_entering prog_pop)
   \<and> underflow_continues prog_pop (instructions prog_pop ! 0)
   \<and> (\<exists>vm'. vm_step (vm_entering prog_pop) = Some (True, vm')
             \<and> state vm' = VM_STATE_RUNNING
             \<and> vm_dispatch_loop (Suc 1) (vm_entering prog_pop) = vm_dispatch_loop 1 vm')
   \<and> underflow_type_error prog_array_push (instructions prog_array_push ! 0)
   \<and> (\<exists>vm'. vm_dispatch_loop (Suc 0) (vm_entering prog_array_push) = Some (Inl vm')
             \<and> state vm' = VM_STATE_ERROR)"
proof -
  have a: "instruction_faults (vm_entering prog_load_const_0) prog_load_const_0
             (instructions prog_load_const_0 ! 0)"
    by (simp add: instruction_faults_def prog_load_const_0_def)
  have b: "underflow_continues prog_pop (instructions prog_pop ! 0)"
    by (simp add: underflow_continues_def prog_pop_def)
  have c: "underflow_type_error prog_array_push (instructions prog_array_push ! 0)"
    by (simp add: underflow_type_error_def prog_array_push_def)
  have l: "0 < length (instructions prog_load_const_0)" "0 < length (instructions prog_pop)"
    "0 < length (instructions prog_array_push)" "0 < VM_STACK_SIZE"
    by (simp_all add: prog_load_const_0_def prog_pop_def prog_array_push_def VM_STACK_SIZE_def)
  show ?thesis
    using fault_sets_error_state_and_halts
        [of "vm_entering prog_load_const_0"
            "\<lparr>frame_bytecode = prog_load_const_0, pc = 0, locals_base = 0,
              this_value = VUndefined\<rparr>" "[]" 0]
      fault_sets_error_state_and_halts
        [of "vm_entering prog_pop"
            "\<lparr>frame_bytecode = prog_pop, pc = 0, locals_base = 0, this_value = VUndefined\<rparr>"
            "[]" 1]
      fault_sets_error_state_and_halts
        [of "vm_entering prog_array_push"
            "\<lparr>frame_bytecode = prog_array_push, pc = 0, locals_base = 0,
              this_value = VUndefined\<rparr>" "[]" 0]
      a b c l
    by (simp add: vm_entering_fields)
qed

text \<open>
  C7. Every operand of compiled bytecode is claimed to lie inside its pool. The program
  \<open>"hi";\<close> compiles to \<open>OP_LOAD_CONST 0; OP_POP; OP_RETURN\<close> with an empty constant pool:
  \<open>compile_literal\<close> puts the literal into the string pool and uses that index with
  \<open>OP_LOAD_CONST\<close>, which reads the constant pool. The bytecode is out of bounds, and the
  VM answers it with \<open>MJS_ERROR\<close>.
\<close>

theorem compiled_string_literal_out_of_bounds:
  "mjs_compile_ast (Some program_hi) =
     Some \<lparr>instructions = [\<lparr>opcode = OP_LOAD_CONST, operand = 0\<rparr>,
                             \<lparr>opcode = OP_POP, operand = 0\<rparr>,
                             \<lparr>opcode = OP_RETURN, operand = 0\<rparr>],
           instruction_capacity = 64, constants = [], constant_capacity = 32,
           strings = [\<lparr>data = ''hi'', is_interned = False\<rparr>], string_capacity = 32\<rparr>
   \<and> (case mjs_compile_ast (Some program_hi) of
         None \<Rightarrow> False
       | Some bc \<Rightarrow>
           \<not> bytecode_in_bounds bc
           \<and> map_option fst (mjs_vm_execute 10 (mjs_vm_new fresh_context) bc) = Some MJS_ERROR)"
  by (simp add: program_hi_def compiler_defs opcode_defs bytecode_in_bounds_def
        operand_in_bounds_def Let_def gc_defs ctx_defs value_defs vm_defs libc_defs fuel_numeral
        cong: eval_cong)

theorem compiled_string_literal_out_of_bounds_witness:
  "map_option bytecode_in_bounds (mjs_compile_ast (Some program_hi)) = Some False"
  using compiled_string_literal_out_of_bounds by (simp split: option.splits)

text \<open>
  C8. A string that does not parse as a number is claimed to convert to NaN.
  \<open>mjs_to_number\<close> hands the bytes to \<open>strtod\<close> and returns its value, which is 0 when
  nothing could be parsed: \<open>"abc"\<close> converts to 0. \<open>mjs_string_to_number\<close> of string.c
  returns NaN for the same string.
\<close>

theorem mjs_to_number_unparsable_string:
  "to_number_abc = (DNum 0, DNaN)"
  by (simp add: to_number_abc_def mjs_to_number_def mjs_string_to_number_def gc_defs ctx_defs
        value_defs libc_defs Let_def cong: eval_cong)








































end
